theory Spec2Isabelle
  imports Main "HOL-Library.Multiset"
begin

section \<open>JavaScript values\<close>

text \<open>
  The routes of \<^verbatim>\<open>src/routes/doctor.js\<close> and the admin login of the application file
  read their inputs from \<^verbatim>\<open>req.body\<close>, which the JSON and urlencoded body parsers fill with
  arbitrary JSON values. A field that is absent reads as \<^verbatim>\<open>undefined\<close>.
  \<open>JNum n\<close> stands for an integral Number of magnitude below \<open>2 ^ 53\<close>; fractions are not
  modelled. Strings are ASCII. \<open>JObj kvs\<close> is a plain object with its own keys; no value
  of a body is callable.
\<close>

datatype jsval =
    JUndefined
  | JNull
  | JBool bool
  | JNum int
  | JStr string
  | JArr "jsval list"
  | JObj "(string \<times> jsval) list"

text \<open>ToBoolean, as used by \<^verbatim>\<open>if (x)\<close>, \<^verbatim>\<open>x && y\<close> and \<^verbatim>\<open>x || y\<close>.\<close>

fun truthy :: "jsval \<Rightarrow> bool" where
  "truthy JUndefined = False"
| "truthy JNull = False"
| "truthy (JBool b) = b"
| "truthy (JNum n) = (n \<noteq> 0)"
| "truthy (JStr s) = (s \<noteq> [])"
| "truthy (JArr xs) = True"
| "truthy (JObj kvs) = True"

text \<open>\<^verbatim>\<open>typeof x === "string"\<close>\<close>

fun is_string :: "jsval \<Rightarrow> bool" where
  "is_string (JStr s) = True"
| "is_string v = False"

text \<open>\<^verbatim>\<open>a || b\<close>\<close>

definition js_or :: "jsval \<Rightarrow> jsval \<Rightarrow> jsval" where
  "js_or a b = (if truthy a then a else b)"

text \<open>Decimal digits of a natural number, most significant first.\<close>

fun digits :: "nat \<Rightarrow> string" where
  "digits n = (if n < 10 then [char_of (48 + n)] else digits (n div 10) @ [char_of (48 + n mod 10)])"

declare digits.simps [simp del]

definition number_to_string :: "int \<Rightarrow> string" where
  "number_to_string i = (if i < 0 then CHR ''-'' # digits (nat (- i)) else digits (nat i))"

fun join_comma :: "string list \<Rightarrow> string" where
  "join_comma [] = []"
| "join_comma [s] = s"
| "join_comma (s # t # ss) = s @ CHR '','' # join_comma (t # ss)"

text \<open>An exception thrown inside a handler; its \<^verbatim>\<open>message\<close> text is the engine's.\<close>

datatype exn =
    NotAFunction string jsval
  | IllegalArguments jsval jsval
  | CannotSetProperty string
  | CannotConvert jsval
  | UploadFailed string

text \<open>
  The conversion of an object to a primitive calls its \<^verbatim>\<open>toString\<close> and \<^verbatim>\<open>valueOf\<close>, in the
  order of the hint, and throws a TypeError when neither gives a primitive. The inherited
  \<^verbatim>\<open>valueOf\<close> answers the object itself and an own \<^verbatim>\<open>valueOf\<close> is not callable, so a plain
  object converts, to \<^verbatim>\<open>[object Object]\<close>, exactly when it has no own key \<^verbatim>\<open>toString\<close>. An
  array converts by \<^verbatim>\<open>join\<close>, which converts each element that is not \<^verbatim>\<open>null\<close> or
  \<^verbatim>\<open>undefined\<close>.
\<close>

fun convertible :: "jsval \<Rightarrow> bool" where
  "convertible (JArr xs) = (\<forall>x\<in>set xs. convertible x)"
| "convertible (JObj kvs) = (''toString'' \<notin> set (map fst kvs))"
| "convertible v = True"

text \<open>
  The string of a value that converts: \<^verbatim>\<open>join\<close> writes \<^verbatim>\<open>null\<close> and \<^verbatim>\<open>undefined\<close> elements
  as the empty string.
\<close>

fun string_of :: "jsval \<Rightarrow> string" where
  "string_of JUndefined = ''undefined''"
| "string_of JNull = ''null''"
| "string_of (JBool b) = (if b then ''true'' else ''false'')"
| "string_of (JNum n) = number_to_string n"
| "string_of (JStr s) = s"
| "string_of (JArr xs) =
     join_comma (map (\<lambda>x. if x = JUndefined \<or> x = JNull then [] else string_of x) xs)"
| "string_of (JObj kvs) = ''[object Object]''"

text \<open>ToString, as a template literal \<^verbatim>\<open>${x}\<close> applies it.\<close>

definition to_string :: "jsval \<Rightarrow> exn + string" where
  "to_string v = (if convertible v then Inr (string_of v) else Inl (CannotConvert v))"

text \<open>
  The loose comparison \<^verbatim>\<open>x == c\<close> against a string constant \<open>c\<close> that is not a numeric
  literal (its conversion to a number is NaN), as both constants of the admin login are.
  A string is compared as it is; a number or a boolean is compared with NaN and differs;
  \<^verbatim>\<open>null\<close> and \<^verbatim>\<open>undefined\<close> equal only each other; an array or an object is converted
  to a primitive, which throws or gives its string, and the string is compared with \<open>c\<close>.
\<close>

fun loose_eq_string :: "jsval \<Rightarrow> string \<Rightarrow> exn + bool" where
  "loose_eq_string JUndefined c = Inr False"
| "loose_eq_string JNull c = Inr False"
| "loose_eq_string (JBool b) c = Inr False"
| "loose_eq_string (JNum n) c = Inr False"
| "loose_eq_string (JStr s) c = Inr (s = c)"
| "loose_eq_string v c =
     (case to_string v of Inl err \<Rightarrow> Inl err | Inr s \<Rightarrow> Inr (s = c))"

text \<open>\<^verbatim>\<open>String.prototype.toLowerCase\<close> on ASCII.\<close>

definition lower_char :: "char \<Rightarrow> char" where
  "lower_char c =
     (if (65::nat) \<le> of_char c \<and> of_char c \<le> (90::nat) then char_of (of_char c + (32::nat)) else c)"

definition toLowerCase :: "string \<Rightarrow> string" where
  "toLowerCase s = map lower_char s"

text \<open>
  \<^verbatim>\<open>x.toLowerCase()\<close> on a value of the request body: only a string has the method, every
  other value throws a TypeError.
\<close>

fun call_toLowerCase :: "jsval \<Rightarrow> exn + jsval" where
  "call_toLowerCase (JStr s) = Inr (JStr (toLowerCase s))"
| "call_toLowerCase v = Inl (NotAFunction ''toLowerCase'' v)"


section \<open>Documents, collections and the request\<close>

text \<open>
  The Mongoose schemas are not part of the sources; a document carries the fields the
  routes read and write, each holding a JavaScript value (\<^verbatim>\<open>undefined\<close> when unset).
  The appointment's \<^verbatim>\<open>_id\<close>, \<^verbatim>\<open>doctorid\<close> and \<^verbatim>\<open>status\<close> are written \<open>appt_id\<close>,
  \<open>appt_doctorid\<close> and \<open>appt_status\<close>, since a doctor has fields of the same names.
\<close>

record doctor =
  name :: jsval
  email :: jsval
  passwordHash :: jsval
  phone :: jsval
  gender :: jsval
  specialization :: jsval
  location :: jsval
  hospitalName :: jsval
  doctorid :: jsval
  status :: jsval
  profilePicture :: jsval

record appointment =
  appt_id :: string
  appt_doctorid :: jsval
  patientEmail :: jsval
  appt_status :: jsval
  timeSlot :: jsval
  appointmentDate :: jsval
  confirmationMessage :: jsval
  createdAt :: int

text \<open>
  A collection is the list of its documents in natural order. The store answers every
  call: an unreachable store and a schema that rejects a document are outside the model,
  so a handler's \<^verbatim>\<open>catch\<close> is reached only by what its own code throws.
\<close>

record db =
  doctors :: "doctor list"
  appointments :: "appointment list"

record session =
  doctorId :: jsval
  doctorEmail :: jsval

record request =
  session :: "session option"
  body :: "string \<rightharpoonup> jsval"
  upload_file :: "string option"

datatype response =
    Json nat "(string \<times> jsval) list"
  | Redirect string "(string \<times> string) list"
  | Render string "(string \<times> jsval) list"
  | Send nat string

text \<open>The HTTP status code; \<^verbatim>\<open>res.redirect\<close> answers 302.\<close>

fun status_code :: "response \<Rightarrow> nat" where
  "status_code (Json c b) = c"
| "status_code (Redirect l cs) = 302"
| "status_code (Render v ls) = 200"
| "status_code (Send c s) = c"

datatype email_outcome = EmailResult bool | EmailThrows

datatype console = ConsoleLog string | ConsoleError string

text \<open>
  What the handlers take from outside the sources: bcrypt, the identifier generator, the
  notification service, the media uploader, the engine's message texts, its locale's date
  format, \<^verbatim>\<open>JSON.stringify\<close>, and whether the store drops an \<^verbatim>\<open>undefined\<close> key of an update
  (Mongoose since version 6) or stores \<^verbatim>\<open>null\<close> for it (before).
\<close>

record env =
  bcrypt_hash_fn :: "string \<Rightarrow> string"
  bcrypt_compare_fn :: "string \<Rightarrow> string \<Rightarrow> bool"
  generateCode :: string
  sendAppointmentConfirmationEmail :: "appointment \<Rightarrow> doctor option \<Rightarrow> email_outcome"
  cloudinary_upload :: "string \<Rightarrow> exn + string"
  error_message :: "exn \<Rightarrow> string"
  toLocaleDateString :: "jsval \<Rightarrow> string"
  JSON_stringify :: "jsval \<Rightarrow> jsval \<Rightarrow> string"
  omitUndefined :: bool

text \<open>A destructured field of \<^verbatim>\<open>req.body\<close>.\<close>

definition field :: "(string \<rightharpoonup> jsval) \<Rightarrow> string \<Rightarrow> jsval" where
  "field b k = (case b k of None \<Rightarrow> JUndefined | Some v \<Rightarrow> v)"

text \<open>\<^verbatim>\<open>findOne\<close>: the first document that matches, with its place in the collection.\<close>

fun findOne :: "('a \<Rightarrow> bool) \<Rightarrow> 'a list \<Rightarrow> (nat \<times> 'a) option" where
  "findOne P [] = None"
| "findOne P (x # xs) =
     (if P x then Some (0, x)
      else (case findOne P xs of None \<Rightarrow> None | Some (i, y) \<Rightarrow> Some (Suc i, y)))"

text \<open>bcryptjs rejects an argument that is not a string.\<close>

definition bcrypt_hash :: "env \<Rightarrow> jsval \<Rightarrow> nat \<Rightarrow> exn + jsval" where
  "bcrypt_hash e pw rounds =
     (case pw of JStr s \<Rightarrow> Inr (JStr (bcrypt_hash_fn e s))
      | _ \<Rightarrow> Inl (IllegalArguments pw (JNum (int rounds))))"

definition bcrypt_compare :: "env \<Rightarrow> jsval \<Rightarrow> jsval \<Rightarrow> exn + bool" where
  "bcrypt_compare e pw h =
     (case pw of
        JStr s \<Rightarrow> (case h of JStr t \<Rightarrow> Inr (bcrypt_compare_fn e s t)
                   | _ \<Rightarrow> Inl (IllegalArguments pw h))
      | _ \<Rightarrow> Inl (IllegalArguments pw h))"

text \<open>The plain object of a document, and \<^verbatim>\<open>.select("-key")\<close> on it.\<close>

definition doctor_object :: "doctor \<Rightarrow> (string \<times> jsval) list" where
  "doctor_object d =
     [(''name'', name d), (''email'', email d), (''passwordHash'', passwordHash d),
      (''phone'', phone d), (''gender'', gender d), (''specialization'', specialization d),
      (''location'', location d), (''hospitalName'', hospitalName d),
      (''doctorid'', doctorid d), (''status'', status d),
      (''profilePicture'', profilePicture d)]"

definition appointment_object :: "appointment \<Rightarrow> (string \<times> jsval) list" where
  "appointment_object a =
     [(''_id'', JStr (appt_id a)), (''doctorid'', appt_doctorid a),
      (''patientEmail'', patientEmail a), (''status'', appt_status a),
      (''timeSlot'', timeSlot a), (''appointmentDate'', appointmentDate a),
      (''confirmationMessage'', confirmationMessage a), (''createdAt'', JNum (createdAt a))]"

definition select_minus :: "string \<Rightarrow> (string \<times> jsval) list \<Rightarrow> (string \<times> jsval) list" where
  "select_minus k kvs = filter (\<lambda>kv. fst kv \<noteq> k) kvs"


section \<open>The session gate\<close>

text \<open>\<^verbatim>\<open>req.session && req.session.doctorId\<close>\<close>

definition session_doctorId :: "request \<Rightarrow> jsval" where
  "session_doctorId req = (case session req of None \<Rightarrow> JUndefined | Some s \<Rightarrow> doctorId s)"

text \<open>
  The middleware either calls \<^verbatim>\<open>next()\<close> (\<open>None\<close>: the handler runs) or answers itself.
\<close>

definition isDoctorLoggedIn :: "request \<Rightarrow> response option" where
  "isDoctorLoggedIn req =
     (if truthy (session_doctorId req) then None else Some (Redirect ''/doctorLogin'' []))"

definition json_failure :: "nat \<Rightarrow> string \<Rightarrow> response" where
  "json_failure c m = Json c [(''success'', JBool False), (''message'', JStr m)]"

section \<open>Registration and login\<close>

definition register_try :: "env \<Rightarrow> db \<Rightarrow> request \<Rightarrow> exn + response \<times> db" where
  "register_try e d req =
     (let name_v = field (body req) ''name'';
          email_v = field (body req) ''email'';
          password_v = field (body req) ''password'';
          phone_v = field (body req) ''phone'';
          gender_v = field (body req) ''gender'';
          specialization_v = field (body req) ''specialization'';
          location_v = field (body req) ''location'';
          hospitalName_v = field (body req) ''hospitalName''
      in case findOne (\<lambda>x. email x = email_v) (doctors d) of
           Some existingDoctor \<Rightarrow>
             Inr (json_failure 400 ''Doctor with this email already exists'', d)
         | None \<Rightarrow>
            (case bcrypt_hash e password_v 10 of
               Inl err \<Rightarrow> Inl err
             | Inr hash \<Rightarrow>
                (case call_toLowerCase specialization_v of
                   Inl err \<Rightarrow> Inl err
                 | Inr spec \<Rightarrow>
                    (case call_toLowerCase location_v of
                       Inl err \<Rightarrow> Inl err
                     | Inr loc \<Rightarrow>
                        (let newDoctor =
                           \<lparr>name = name_v, email = email_v, passwordHash = hash,
                            phone = phone_v, gender = gender_v, specialization = spec,
                            location = loc, hospitalName = js_or hospitalName_v (JStr []),
                            doctorid = JStr (generateCode e), status = JStr ''pending'',
                            profilePicture = JUndefined\<rparr>
                         in Inr (Json 201
                                  [(''success'', JBool True),
                                   (''message'', JStr ''Doctor registered successfully! Please wait for admin approval.''),
                                   (''doctorId'', JStr (generateCode e))],
                                 d\<lparr>doctors := doctors d @ [newDoctor]\<rparr>))))))"

text \<open>\<^verbatim>\<open>POST /doctor/register\<close>: the \<^verbatim>\<open>try\<close> body and its \<^verbatim>\<open>catch\<close>.\<close>

definition register :: "env \<Rightarrow> db \<Rightarrow> request \<Rightarrow> response \<times> db" where
  "register e d req =
     (case register_try e d req of
        Inr r \<Rightarrow> r
      | Inl err \<Rightarrow> (json_failure 500 (''Error registering doctor: '' @ error_message e err), d))"

definition login_try :: "env \<Rightarrow> db \<Rightarrow> request \<Rightarrow> exn + response \<times> session option" where
  "login_try e d req =
     (let email_v = field (body req) ''email'';
          password_v = field (body req) ''password''
      in case findOne (\<lambda>x. email x = email_v) (doctors d) of
           None \<Rightarrow> Inr (json_failure 401 ''Invalid email or password'', session req)
         | Some (i, foundDoctor) \<Rightarrow>
             if status foundDoctor \<noteq> JStr ''approved'' then
               Inr (json_failure 403
                      ''Your account is pending approval. Please wait for admin approval.'',
                    session req)
             else
               (case bcrypt_compare e password_v (passwordHash foundDoctor) of
                  Inl err \<Rightarrow> Inl err
                | Inr isPasswordValid \<Rightarrow>
                    if \<not> isPasswordValid then
                      Inr (json_failure 401 ''Invalid email or password'', session req)
                    else
                      (case session req of
                         None \<Rightarrow> Inl (CannotSetProperty ''doctorId'')
                       | Some s \<Rightarrow>
                           Inr (Json 200
                                  [(''success'', JBool True),
                                   (''message'', JStr ''Login successful''),
                                   (''doctorId'', doctorid foundDoctor),
                                   (''redirectUrl'', JStr ''/doctor/dashboard'')],
                                Some (s\<lparr>doctorId := doctorid foundDoctor,
                                        doctorEmail := email foundDoctor\<rparr>)))))"

text \<open>\<^verbatim>\<open>POST /doctor/login\<close>: the response and the session after the request.\<close>

definition login :: "env \<Rightarrow> db \<Rightarrow> request \<Rightarrow> response \<times> session option" where
  "login e d req =
     (case login_try e d req of
        Inr r \<Rightarrow> r
      | Inl err \<Rightarrow>
          (json_failure 500 (''Error during login: '' @ error_message e err), session req))"

section \<open>Dashboard and profile\<close>

text \<open>
  \<^verbatim>\<open>appointment.find({ doctorid }).sort({ createdAt: -1 })\<close>: the doctor's appointments,
  newest first; appointments created at the same instant keep their natural order.
\<close>

definition find_sorted :: "jsval \<Rightarrow> appointment list \<Rightarrow> appointment list" where
  "find_sorted did apps =
     sort_key (\<lambda>a. - createdAt a) (filter (\<lambda>a. appt_doctorid a = did) apps)"

definition dashboard :: "db \<Rightarrow> request \<Rightarrow> response" where
  "dashboard d req =
     (case isDoctorLoggedIn req of
        Some r \<Rightarrow> r
      | None \<Rightarrow>
         (let doctorId_v = session_doctorId req
          in case findOne (\<lambda>x. doctorid x = doctorId_v) (doctors d) of
               None \<Rightarrow> Redirect ''/doctorLogin'' []
             | Some (i, foundDoctor) \<Rightarrow>
                 Render ''doctorDashboard''
                   [(''doctor'', JObj (doctor_object foundDoctor)),
                    (''appointments'',
                       JArr (map (\<lambda>a. JObj (appointment_object a))
                              (find_sorted doctorId_v (appointments d))))]))"

definition get_profile :: "db \<Rightarrow> request \<Rightarrow> response" where
  "get_profile d req =
     (case isDoctorLoggedIn req of
        Some r \<Rightarrow> r
      | None \<Rightarrow>
         (let doctorId_v = session_doctorId req
          in case findOne (\<lambda>x. doctorid x = doctorId_v) (doctors d) of
               None \<Rightarrow> json_failure 404 ''Doctor not found''
             | Some (i, foundDoctor) \<Rightarrow>
                 Json 200
                   [(''success'', JBool True),
                    (''doctor'', JObj (select_minus ''passwordHash'' (doctor_object foundDoctor)))]))"

text \<open>What an update stores in a field, given the value of its key in the update.\<close>

definition set_field :: "env \<Rightarrow> jsval \<Rightarrow> jsval \<Rightarrow> jsval" where
  "set_field e old new =
     (if new = JUndefined then (if omitUndefined e then old else JNull) else new)"

text \<open>
  \<^verbatim>\<open>POST /doctor/profile/update\<close>: \<^verbatim>\<open>findOneAndUpdate\<close> with \<^verbatim>\<open>{ new: true }\<close> answers the
  updated document, or \<^verbatim>\<open>null\<close> when no doctor has the session's identifier. Nothing in
  the \<^verbatim>\<open>try\<close> body throws.
\<close>

definition profile_update :: "env \<Rightarrow> db \<Rightarrow> request \<Rightarrow> response \<times> db" where
  "profile_update e d req =
     (case isDoctorLoggedIn req of
        Some r \<Rightarrow> (r, d)
      | None \<Rightarrow>
         (let doctorId_v = session_doctorId req;
              name_v = field (body req) ''name'';
              phone_v = field (body req) ''phone'';
              specialization_v = field (body req) ''specialization'';
              location_v = field (body req) ''location'';
              hospitalName_v = field (body req) ''hospitalName''
          in case findOne (\<lambda>x. doctorid x = doctorId_v) (doctors d) of
               None \<Rightarrow>
                 (Json 200
                    [(''success'', JBool True),
                     (''message'', JStr ''Profile updated successfully''),
                     (''doctor'', JNull)],
                  d)
             | Some (i, found) \<Rightarrow>
                 (let updatedDoctor =
                        found\<lparr>name := set_field e (name found) name_v,
                              phone := set_field e (phone found) phone_v,
                              specialization := set_field e (specialization found) specialization_v,
                              location := set_field e (location found) location_v,
                              hospitalName := set_field e (hospitalName found) hospitalName_v\<rparr>
                  in (Json 200
                        [(''success'', JBool True),
                         (''message'', JStr ''Profile updated successfully''),
                         (''doctor'',
                            JObj (select_minus ''passwordHash'' (doctor_object updatedDoctor)))],
                      d\<lparr>doctors := (doctors d)[i := updatedDoctor]\<rparr>))))"

text \<open>\<^verbatim>\<open>POST /doctor/profile/picture\<close>, after the gate and the upload middleware.\<close>

definition profile_picture :: "env \<Rightarrow> db \<Rightarrow> request \<Rightarrow> response \<times> db" where
  "profile_picture e d req =
     (case isDoctorLoggedIn req of
        Some r \<Rightarrow> (r, d)
      | None \<Rightarrow>
         (let doctorId_v = session_doctorId req
          in case upload_file req of
               None \<Rightarrow> (json_failure 400 ''No file uploaded'', d)
             | Some path \<Rightarrow>
                (case cloudinary_upload e path of
                   Inl err \<Rightarrow>
                     (json_failure 500
                        (''Error uploading profile picture: '' @ error_message e err), d)
                 | Inr secure_url \<Rightarrow>
                    (case findOne (\<lambda>x. doctorid x = doctorId_v) (doctors d) of
                       None \<Rightarrow>
                         (Json 200
                            [(''success'', JBool True),
                             (''message'', JStr ''Profile picture uploaded successfully''),
                             (''profilePicture'', JStr secure_url),
                             (''doctor'', JNull)],
                          d)
                     | Some (i, found) \<Rightarrow>
                         (let updatedDoctor = found\<lparr>profilePicture := JStr secure_url\<rparr>
                          in (Json 200
                                [(''success'', JBool True),
                                 (''message'', JStr ''Profile picture uploaded successfully''),
                                 (''profilePicture'', JStr secure_url),
                                 (''doctor'',
                                    JObj (select_minus ''passwordHash''
                                           (doctor_object updatedDoctor)))],
                              d\<lparr>doctors := (doctors d)[i := updatedDoctor]\<rparr>))))))"

section \<open>Appointments\<close>

definition get_appointments :: "db \<Rightarrow> request \<Rightarrow> response" where
  "get_appointments d req =
     (case isDoctorLoggedIn req of
        Some r \<Rightarrow> r
      | None \<Rightarrow>
          Json 200
            [(''success'', JBool True),
             (''appointments'',
                JArr (map (\<lambda>a. JObj (appointment_object a))
                       (find_sorted (session_doctorId req) (appointments d))))])"

definition getDoctorById :: "db \<Rightarrow> jsval \<Rightarrow> doctor option \<times> console list" where
  "getDoctorById d did =
     (case findOne (\<lambda>x. doctorid x = did) (doctors d) of
        None \<Rightarrow>
          (None, [ConsoleLog ''Fetching doctor details for:'', ConsoleLog ''No doctor found with ID:''])
      | Some (i, doctorData) \<Rightarrow>
          (Some doctorData, [ConsoleLog ''Fetching doctor details for:'', ConsoleLog ''Doctor found:'']))"

text \<open>
  The inner \<^verbatim>\<open>try\<close> of the confirmation: whatever the notification service answers, and
  when it throws, the only effect is a line on the console.
\<close>

definition notify :: "env \<Rightarrow> db \<Rightarrow> appointment \<Rightarrow> jsval \<Rightarrow> console list" where
  "notify e d a did =
     (case getDoctorById d did of
        (doctorDetails, out) \<Rightarrow>
          out @ [ConsoleLog ''Doctor details:''] @
          (case sendAppointmentConfirmationEmail e a doctorDetails of
             EmailResult ok \<Rightarrow>
               if ok then [ConsoleLog ''Appointment confirmation email sent successfully to:'']
               else [ConsoleError ''Failed to send appointment confirmation email:'']
           | EmailThrows \<Rightarrow> [ConsoleError ''Error in email sending process:'']))"

text \<open>
  \<^verbatim>\<open>new Date(x).toLocaleDateString()\<close>: the constructor converts an object or an array to a
  primitive first, which may throw; the text of the date is the locale's.
\<close>

definition date_string :: "env \<Rightarrow> jsval \<Rightarrow> exn + string" where
  "date_string e v = (if convertible v then Inr (toLocaleDateString e v) else Inl (CannotConvert v))"

text \<open>The template literal of the default message: the time slot is converted first.\<close>

definition default_confirmation :: "env \<Rightarrow> jsval \<Rightarrow> jsval \<Rightarrow> exn + string" where
  "default_confirmation e timeSlot_v appointmentDate_v =
     (case to_string timeSlot_v of
        Inl err \<Rightarrow> Inl err
      | Inr slot \<Rightarrow>
         (case date_string e appointmentDate_v of
            Inl err \<Rightarrow> Inl err
          | Inr day \<Rightarrow>
              Inr (''Your appointment has been confirmed for '' @ slot @ '' on '' @ day)))"

text \<open>
  The \<^verbatim>\<open>try\<close> body of the confirmation. The template literal is evaluated only when the
  supplied message is falsy, after the assignments of status, time slot and date to the
  document in memory and before \<^verbatim>\<open>save()\<close>; when it throws nothing has been written to the
  store. The route parameter is a string and the lookup compares it with the identifier
  of each appointment; \<^verbatim>\<open>save()\<close> writes the document back to its own place. The console
  lines are written with their fixed text only.
\<close>

definition confirm_try ::
  "env \<Rightarrow> db \<Rightarrow> string \<Rightarrow> request \<Rightarrow> exn + response \<times> db \<times> console list" where
  "confirm_try e d appointmentId req =
     (let timeSlot_v = field (body req) ''timeSlot'';
          appointmentDate_v = field (body req) ''appointmentDate'';
          confirmationMessage_v = field (body req) ''confirmationMessage'';
          doctorId_v = session_doctorId req;
          out = [ConsoleLog ''The doctor is in appoints route '',
                 ConsoleLog ''Confirming appointment:'']
      in case findOne (\<lambda>a. appt_id a = appointmentId \<and> appt_doctorid a = doctorId_v)
                (appointments d) of
           None \<Rightarrow> Inr (json_failure 404 ''Appointment not found'', d, out)
         | Some (i, found) \<Rightarrow>
            (case (if truthy confirmationMessage_v then Inr confirmationMessage_v
                   else (case default_confirmation e timeSlot_v appointmentDate_v of
                           Inl err \<Rightarrow> Inl err
                         | Inr text \<Rightarrow> Inr (JStr text))) of
               Inl err \<Rightarrow> Inl err
             | Inr message \<Rightarrow>
                 (let foundAppointment =
                        found\<lparr>appt_status := JStr ''confirmed'',
                              timeSlot := timeSlot_v,
                              appointmentDate := appointmentDate_v,
                              confirmationMessage := message\<rparr>;
                      d' = d\<lparr>appointments := (appointments d)[i := foundAppointment]\<rparr>
                  in Inr (Json 200
                            [(''success'', JBool True),
                             (''message'',
                                JStr ''Appointment confirmed successfully. Patient will be notified.''),
                             (''appointment'', JObj (appointment_object foundAppointment)),
                             (''emailSent'', JBool True)],
                          d',
                          out @ notify e d' foundAppointment doctorId_v))))"

text \<open>
  \<^verbatim>\<open>POST /doctor/appointments/:appointmentId/confirm\<close>: the response, the store and the
  console after the request. The outer \<^verbatim>\<open>catch\<close> answers 500 and leaves the store as it was.
\<close>

definition confirm :: "env \<Rightarrow> db \<Rightarrow> string \<Rightarrow> request \<Rightarrow> response \<times> db \<times> console list" where
  "confirm e d appointmentId req =
     (case isDoctorLoggedIn req of
        Some r \<Rightarrow> (r, d, [])
      | None \<Rightarrow>
         (case confirm_try e d appointmentId req of
            Inr r \<Rightarrow> r
          | Inl err \<Rightarrow>
              (json_failure 500 (''Error confirming appointment: '' @ error_message e err),
               d,
               [ConsoleLog ''The doctor is in appoints route '',
                ConsoleLog ''Confirming appointment:'',
                ConsoleError ''Appointment confirmation error:''])))"

section \<open>Admin login\<close>

text \<open>The UTF-8 bytes of the warning sign that opens the text of the 500 answer.\<close>

definition warning_sign :: string where
  "warning_sign = [char_of (226::nat), char_of (154::nat), char_of (160::nat),
                   char_of (239::nat), char_of (184::nat), char_of (143::nat)]"

text \<open>
  \<^verbatim>\<open>POST /admin\<close> of the application file: both comparisons are the loose \<^verbatim>\<open>==\<close>, the
  password being compared only when the email has matched. Without a status call
  \<^verbatim>\<open>res.json\<close> answers 200; the 400 is a field of the body. The second argument of
  \<^verbatim>\<open>JSON.stringify\<close> is the password, passed as its replacer. The documents that
  \<^verbatim>\<open>admin.find()\<close> reads are only printed. A comparison that throws is caught and answered
  500.
\<close>

definition admin_login :: "env \<Rightarrow> request \<Rightarrow> response" where
  "admin_login e req =
     (let email_v = field (body req) ''email'';
          password_v = field (body req) ''password'';
          invalid = Json 200 [(''status'', JNum 400), (''valid'', JStr ''Invalid Email!'')];
          server_error = Send 500 (warning_sign @ '' Server error during admin login'')
      in case loose_eq_string email_v ''admin@gmail.com'' of
           Inl err \<Rightarrow> server_error
         | Inr email_ok \<Rightarrow>
             if \<not> email_ok then invalid
             else (case loose_eq_string password_v ''asdf'' of
                     Inl err \<Rightarrow> server_error
                   | Inr password_ok \<Rightarrow>
                       if password_ok
                       then Redirect ''/adminPage''
                              [(''admin'', JSON_stringify e email_v password_v)]
                       else invalid))"

section \<open>Notions used in the statements\<close>

text \<open>The value of a key in the body of a JSON response.\<close>

fun json_field :: "response \<Rightarrow> string \<Rightarrow> jsval" where
  "json_field (Json c b) k = field (map_of b) k"
| "json_field r k = JUndefined"

text \<open>
  The record that the profile update writes in the place of the record it found: the
  update object \<^verbatim>\<open>{ name, phone, specialization, location, hospitalName }\<close> applied to it.
\<close>

definition updated_profile :: "env \<Rightarrow> request \<Rightarrow> doctor \<Rightarrow> doctor" where
  "updated_profile e req found =
     found\<lparr>name := set_field e (name found) (field (body req) ''name''),
           phone := set_field e (phone found) (field (body req) ''phone''),
           specialization := set_field e (specialization found) (field (body req) ''specialization''),
           location := set_field e (location found) (field (body req) ''location''),
           hospitalName := set_field e (hospitalName found) (field (body req) ''hospitalName'')\<rparr>"



section \<open>Sample data\<close>

text \<open>A store, a doctor's session and requests on which the theorems below are run.\<close>

definition env0 :: env where
  "env0 =
     \<lparr>bcrypt_hash_fn = (\<lambda>s. ''$2a$10$'' @ s),
      bcrypt_compare_fn = (\<lambda>s h. h = ''$2a$10$'' @ s),
      generateCode = ''DOC7'',
      sendAppointmentConfirmationEmail = (\<lambda>a d. EmailThrows),
      cloudinary_upload = (\<lambda>p. Inr (''https://media/'' @ p)),
      error_message = (\<lambda>x. ''TypeError''),
      toLocaleDateString = string_of,
      JSON_stringify = (\<lambda>v r. string_of v),
      omitUndefined = True\<rparr>"

definition doctor1 :: doctor where
  "doctor1 =
     \<lparr>name = JStr ''A'', email = JStr ''a@x.com'', passwordHash = JStr ''$2a$10$p'',
      phone = JStr ''1'', gender = JStr ''f'', specialization = JStr ''cardio'',
      location = JStr ''ny'', hospitalName = JStr [], doctorid = JStr ''DOC1'',
      status = JStr ''pending'', profilePicture = JUndefined\<rparr>"

definition appt1 :: appointment where
  "appt1 =
     \<lparr>appt_id = ''a1'', appt_doctorid = JStr ''DOC1'', patientEmail = JStr ''p@x.com'',
      appt_status = JStr ''pending'', timeSlot = JUndefined, appointmentDate = JUndefined,
      confirmationMessage = JUndefined, createdAt = 100\<rparr>"

definition appt2 :: appointment where
  "appt2 =
     \<lparr>appt_id = ''a2'', appt_doctorid = JStr ''DOC2'', patientEmail = JStr ''q@x.com'',
      appt_status = JStr ''pending'', timeSlot = JUndefined, appointmentDate = JUndefined,
      confirmationMessage = JUndefined, createdAt = 200\<rparr>"

definition appt3 :: appointment where
  "appt3 =
     \<lparr>appt_id = ''a3'', appt_doctorid = JStr ''DOC1'', patientEmail = JStr ''r@x.com'',
      appt_status = JStr ''confirmed'', timeSlot = JStr ''09:00'',
      appointmentDate = JStr ''2025-01-01'', confirmationMessage = JStr ''See you'',
      createdAt = 300\<rparr>"

definition db0 :: db where
  "db0 = \<lparr>doctors = [doctor1], appointments = [appt1, appt2, appt3]\<rparr>"

definition session1 :: session where
  "session1 = \<lparr>doctorId = JStr ''DOC1'', doctorEmail = JStr ''a@x.com''\<rparr>"

definition req_confirm :: request where
  "req_confirm =
     \<lparr>session = Some session1,
      body = [''timeSlot'' \<mapsto> JStr ''10:00'', ''appointmentDate'' \<mapsto> JStr ''2025-01-02''],
      upload_file = None\<rparr>"

definition req_anonymous :: request where
  "req_anonymous = \<lparr>session = None, body = Map.empty, upload_file = None\<rparr>"

definition req_other :: request where
  "req_other =
     \<lparr>session = Some \<lparr>doctorId = JStr ''DOC2'', doctorEmail = JStr ''b@x.com''\<rparr>,
      body = [''timeSlot'' \<mapsto> JStr ''10:00'', ''appointmentDate'' \<mapsto> JStr ''2025-01-02''],
      upload_file = None\<rparr>"

definition db_confirmed :: db where
  "db_confirmed = fst (snd (confirm env0 db0 ''a1'' req_confirm))"

definition req_again :: request where
  "req_again =
     \<lparr>session = Some session1,
      body = [''timeSlot'' \<mapsto> JStr ''11:30'', ''appointmentDate'' \<mapsto> JStr ''2025-02-03'',
              ''confirmationMessage'' \<mapsto> JStr ''Moved''],
      upload_file = None\<rparr>"

definition req_login :: request where
  "req_login =
     \<lparr>session = Some \<lparr>doctorId = JUndefined, doctorEmail = JUndefined\<rparr>,
      body = [''email'' \<mapsto> JStr ''a@x.com'', ''password'' \<mapsto> JStr ''p''],
      upload_file = None\<rparr>"

definition db_approved :: db where
  "db_approved = db0\<lparr>doctors := [doctor1\<lparr>status := JStr ''approved''\<rparr>]\<rparr>"

definition req_register :: request where
  "req_register =
     \<lparr>session = None,
      body = [''name'' \<mapsto> JStr ''B'', ''email'' \<mapsto> JStr ''b@x.com'', ''password'' \<mapsto> JStr ''p'',
              ''phone'' \<mapsto> JStr ''2'', ''gender'' \<mapsto> JStr ''f'',
              ''specialization'' \<mapsto> JStr ''Cardio'', ''location'' \<mapsto> JStr ''NY''],
      upload_file = None\<rparr>"

definition req_register_short :: request where
  "req_register_short =
     \<lparr>session = None,
      body = [''name'' \<mapsto> JStr ''B'', ''email'' \<mapsto> JStr ''b@x.com'', ''password'' \<mapsto> JStr ''p'',
              ''phone'' \<mapsto> JStr ''2'', ''gender'' \<mapsto> JStr ''f''],
      upload_file = None\<rparr>"

definition req_profile :: request where
  "req_profile =
     \<lparr>session = Some session1,
      body = [''name'' \<mapsto> JStr ''Dr A'', ''specialization'' \<mapsto> JStr ''CARDIO'',
              ''location'' \<mapsto> JStr ''Boston'', ''email'' \<mapsto> JStr ''evil@x.com'',
              ''status'' \<mapsto> JStr ''approved''],
      upload_file = None\<rparr>"

definition req_admin_array :: request where
  "req_admin_array =
     \<lparr>session = None,
      body = [''email'' \<mapsto> JArr [JStr ''admin@gmail.com''], ''password'' \<mapsto> JStr ''asdf''],
      upload_file = None\<rparr>"

text \<open>
  The JSON body \<^verbatim>\<open>{"timeSlot": {"toString": 1}, "appointmentDate": "2025-01-02"}\<close>: no
  confirmation message, and a time slot that has no string.
\<close>

definition req_unprintable :: request where
  "req_unprintable =
     \<lparr>session = Some session1,
      body = [''timeSlot'' \<mapsto> JObj [(''toString'', JNum 1)],
              ''appointmentDate'' \<mapsto> JStr ''2025-01-02''],
      upload_file = None\<rparr>"

section \<open>The store lookup\<close>

lemma findOne_SomeD:
  "findOne P xs = Some (i, x) \<Longrightarrow> i < length xs \<and> xs ! i = x \<and> P x"
proof (induction xs arbitrary: i)
  case Nil
  then show ?case by simp
next
  case (Cons y ys)
  show ?case
  proof (cases "P y")
    case True
    with Cons.prems show ?thesis by simp
  next
    case False
    with Cons.prems obtain j where j: "findOne P ys = Some (j, x)" "i = Suc j"
      by (auto split: option.splits)
    from Cons.IH [OF j(1)] j(2) show ?thesis by simp
  qed
qed

lemma findOne_None_iff: "findOne P xs = None \<longleftrightarrow> (\<forall>x\<in>set xs. \<not> P x)"
  by (induction xs) (auto split: option.splits)

lemma findOne_Some_if: "\<exists>x\<in>set xs. P x \<Longrightarrow> \<exists>i x. findOne P xs = Some (i, x)"
  using findOne_None_iff [of P xs] by (cases "findOne P xs") auto

section \<open>Confirming an appointment\<close>

lemmas sample_defs =
  env0_def db0_def doctor1_def appt1_def appt2_def appt3_def session1_def req_confirm_def
  req_anonymous_def

lemma default_confirmation_Inr:
  assumes "convertible t" and "convertible dt"
  shows "default_confirmation e t dt =
           Inr (''Your appointment has been confirmed for '' @ string_of t @ '' on '' @
                toLocaleDateString e dt)"
  using assms by (simp add: default_confirmation_def to_string_def date_string_def)

lemma default_confirmation_Inl:
  assumes "\<not> (convertible t \<and> convertible dt)"
  shows "\<exists>err. default_confirmation e t dt = Inl err"
  using assms by (auto simp: default_confirmation_def to_string_def date_string_def)

lemma confirm_found:
  assumes "truthy (session_doctorId req)"
    and "findOne (\<lambda>a. appt_id a = aid \<and> appt_doctorid a = session_doctorId req) (appointments d) = Some (i, a)"
    and "truthy (field (body req) ''confirmationMessage'')
         \<or> (convertible (field (body req) ''timeSlot'')
            \<and> convertible (field (body req) ''appointmentDate''))"
  shows "fst (confirm e d aid req) =
           Json 200
             [(''success'', JBool True),
              (''message'', JStr ''Appointment confirmed successfully. Patient will be notified.''),
              (''appointment'', JObj (appointment_object
                 (a\<lparr>appt_status := JStr ''confirmed'',
                    timeSlot := field (body req) ''timeSlot'',
                    appointmentDate := field (body req) ''appointmentDate'',
                    confirmationMessage :=
                      (if truthy (field (body req) ''confirmationMessage'')
                       then field (body req) ''confirmationMessage''
                       else JStr (''Your appointment has been confirmed for '' @
                                  string_of (field (body req) ''timeSlot'') @ '' on '' @
                                  toLocaleDateString e (field (body req) ''appointmentDate'')))\<rparr>))),
              (''emailSent'', JBool True)]
         \<and> fst (snd (confirm e d aid req)) =
           d\<lparr>appointments := (appointments d)[i :=
                 a\<lparr>appt_status := JStr ''confirmed'',
                    timeSlot := field (body req) ''timeSlot'',
                    appointmentDate := field (body req) ''appointmentDate'',
                    confirmationMessage :=
                      (if truthy (field (body req) ''confirmationMessage'')
                       then field (body req) ''confirmationMessage''
                       else JStr (''Your appointment has been confirmed for '' @
                                  string_of (field (body req) ''timeSlot'') @ '' on '' @
                                  toLocaleDateString e (field (body req) ''appointmentDate'')))\<rparr>]\<rparr>"
proof (cases "truthy (field (body req) ''confirmationMessage'')")
  case True
  with assms(1,2) show ?thesis
    by (simp add: confirm_def confirm_try_def isDoctorLoggedIn_def Let_def)
next
  case False
  with assms(3) have "convertible (field (body req) ''timeSlot'')"
    "convertible (field (body req) ''appointmentDate'')"
    by simp_all
  from default_confirmation_Inr [OF this, of e] False assms(1,2) show ?thesis
    by (simp add: confirm_def confirm_try_def isDoctorLoggedIn_def Let_def)
qed

lemma confirm_thrown:
  assumes "truthy (session_doctorId req)"
    and "findOne (\<lambda>a. appt_id a = aid \<and> appt_doctorid a = session_doctorId req) (appointments d) = Some (i, a)"
    and "\<not> truthy (field (body req) ''confirmationMessage'')"
    and "\<not> (convertible (field (body req) ''timeSlot'')
            \<and> convertible (field (body req) ''appointmentDate''))"
  shows "status_code (fst (confirm e d aid req)) = 500 \<and> fst (snd (confirm e d aid req)) = d"
proof -
  from default_confirmation_Inl [OF assms(4), of e] obtain err where
    "default_confirmation e (field (body req) ''timeSlot'') (field (body req) ''appointmentDate'')
       = Inl err"
    by blast
  with assms(1-3) show ?thesis
    by (simp add: confirm_def confirm_try_def isDoctorLoggedIn_def Let_def json_failure_def)
qed

text \<open>
  C1, as the code has it. A confirm request of a doctor's session on an appointment that
  exists and carries the session's doctor identifier, when its confirmation message is
  truthy or its time slot and appointment date convert to strings, sets the appointment's
  status to confirmed, stores the supplied message, or the derived default when the
  supplied one is falsy, writes the appointment back to the store and answers with the
  success response; this holds for every notification service \<open>f\<close>, whether its call
  succeeds, fails or throws. Otherwise the default message cannot be derived: the answer
  is 500 and the store is left as it was, for every notification service as well.
\<close>

theorem confirm_independent_of_notification:
  assumes "session req = Some s" and "truthy (doctorId s)"
    and "\<exists>a\<in>set (appointments d). appt_id a = aid \<and> appt_doctorid a = doctorId s"
  shows "\<exists>i a'. i < length (appointments d)
           \<and> appt_id (appointments d ! i) = aid
           \<and> appt_doctorid (appointments d ! i) = doctorId s
           \<and> a' = (appointments d ! i)
                    \<lparr>appt_status := JStr ''confirmed'',
                     timeSlot := field (body req) ''timeSlot'',
                     appointmentDate := field (body req) ''appointmentDate'',
                     confirmationMessage :=
                       (if truthy (field (body req) ''confirmationMessage'')
                        then field (body req) ''confirmationMessage''
                        else JStr (''Your appointment has been confirmed for '' @
                                   string_of (field (body req) ''timeSlot'') @ '' on '' @
                                   toLocaleDateString e (field (body req) ''appointmentDate'')))\<rparr>
           \<and> (truthy (field (body req) ''confirmationMessage'')
                \<or> (convertible (field (body req) ''timeSlot'')
                   \<and> convertible (field (body req) ''appointmentDate''))
              \<longrightarrow> (\<forall>f. fst (confirm (e\<lparr>sendAppointmentConfirmationEmail := f\<rparr>) d aid req) =
                          Json 200
                            [(''success'', JBool True),
                             (''message'',
                                JStr ''Appointment confirmed successfully. Patient will be notified.''),
                             (''appointment'', JObj (appointment_object a')),
                             (''emailSent'', JBool True)]
                      \<and> fst (snd (confirm (e\<lparr>sendAppointmentConfirmationEmail := f\<rparr>) d aid req)) =
                          d\<lparr>appointments := (appointments d)[i := a']\<rparr>))
           \<and> (\<not> truthy (field (body req) ''confirmationMessage'')
                \<and> \<not> (convertible (field (body req) ''timeSlot'')
                       \<and> convertible (field (body req) ''appointmentDate''))
              \<longrightarrow> (\<forall>f. status_code
                          (fst (confirm (e\<lparr>sendAppointmentConfirmationEmail := f\<rparr>) d aid req)) = 500
                      \<and> fst (snd (confirm (e\<lparr>sendAppointmentConfirmationEmail := f\<rparr>) d aid req)) = d))"
proof -
  let ?P = "\<lambda>a. appt_id a = aid \<and> appt_doctorid a = session_doctorId req"
  let ?a' = "(appointments d ! i)
                    \<lparr>appt_status := JStr ''confirmed'',
                     timeSlot := field (body req) ''timeSlot'',
                     appointmentDate := field (body req) ''appointmentDate'',
                     confirmationMessage :=
                       (if truthy (field (body req) ''confirmationMessage'')
                        then field (body req) ''confirmationMessage''
                        else JStr (''Your appointment has been confirmed for '' @
                                   string_of (field (body req) ''timeSlot'') @ '' on '' @
                                   toLocaleDateString e (field (body req) ''appointmentDate'')))\<rparr>"
  have sid: "session_doctorId req = doctorId s"
    using assms(1) by (simp add: session_doctorId_def)
  from assms(3) sid have "\<exists>x\<in>set (appointments d). ?P x" by simp
  then obtain i a where found: "findOne ?P (appointments d) = Some (i, a)"
    using findOne_Some_if [of "appointments d" ?P] by blast
  from findOne_SomeD [OF found] sid
  have i: "i < length (appointments d)" "appointments d ! i = a"
    "appt_id a = aid" "appt_doctorid a = doctorId s"
    by simp_all
  have t: "truthy (session_doctorId req)" using assms(2) sid by simp
  show ?thesis
  proof (intro exI [of _ i] exI [of _ "a\<lparr>appt_status := JStr ''confirmed'',
                     timeSlot := field (body req) ''timeSlot'',
                     appointmentDate := field (body req) ''appointmentDate'',
                     confirmationMessage :=
                       (if truthy (field (body req) ''confirmationMessage'')
                        then field (body req) ''confirmationMessage''
                        else JStr (''Your appointment has been confirmed for '' @
                                   string_of (field (body req) ''timeSlot'') @ '' on '' @
                                   toLocaleDateString e (field (body req) ''appointmentDate'')))\<rparr>"]
      conjI impI allI)
    show "i < length (appointments d)" by (rule i(1))
    show "appt_id (appointments d ! i) = aid" using i by simp
    show "appt_doctorid (appointments d ! i) = doctorId s" using i by simp
  next
    show "a\<lparr>appt_status := JStr ''confirmed'',
                     timeSlot := field (body req) ''timeSlot'',
                     appointmentDate := field (body req) ''appointmentDate'',
                     confirmationMessage :=
                       (if truthy (field (body req) ''confirmationMessage'')
                        then field (body req) ''confirmationMessage''
                        else JStr (''Your appointment has been confirmed for '' @
                                   string_of (field (body req) ''timeSlot'') @ '' on '' @
                                   toLocaleDateString e (field (body req) ''appointmentDate'')))\<rparr>
          = (appointments d ! i)
                    \<lparr>appt_status := JStr ''confirmed'',
                     timeSlot := field (body req) ''timeSlot'',
                     appointmentDate := field (body req) ''appointmentDate'',
                     confirmationMessage :=
                       (if truthy (field (body req) ''confirmationMessage'')
                        then field (body req) ''confirmationMessage''
                        else JStr (''Your appointment has been confirmed for '' @
                                   string_of (field (body req) ''timeSlot'') @ '' on '' @
                                   toLocaleDateString e (field (body req) ''appointmentDate'')))\<rparr>"
      using i(2) by simp
  next
    fix f
    assume ok: "truthy (field (body req) ''confirmationMessage'')
                \<or> (convertible (field (body req) ''timeSlot'')
                   \<and> convertible (field (body req) ''appointmentDate''))"
    from confirm_found [OF t found ok, of "e\<lparr>sendAppointmentConfirmationEmail := f\<rparr>"]
    show "fst (confirm (e\<lparr>sendAppointmentConfirmationEmail := f\<rparr>) d aid req) =
            Json 200
              [(''success'', JBool True),
               (''message'', JStr ''Appointment confirmed successfully. Patient will be notified.''),
               (''appointment'', JObj (appointment_object
                  (a\<lparr>appt_status := JStr ''confirmed'',
                     timeSlot := field (body req) ''timeSlot'',
                     appointmentDate := field (body req) ''appointmentDate'',
                     confirmationMessage :=
                       (if truthy (field (body req) ''confirmationMessage'')
                        then field (body req) ''confirmationMessage''
                        else JStr (''Your appointment has been confirmed for '' @
                                   string_of (field (body req) ''timeSlot'') @ '' on '' @
                                   toLocaleDateString e (field (body req) ''appointmentDate'')))\<rparr>))),
               (''emailSent'', JBool True)]"
      and "fst (snd (confirm (e\<lparr>sendAppointmentConfirmationEmail := f\<rparr>) d aid req)) =
            d\<lparr>appointments := (appointments d)[i :=
                  a\<lparr>appt_status := JStr ''confirmed'',
                     timeSlot := field (body req) ''timeSlot'',
                     appointmentDate := field (body req) ''appointmentDate'',
                     confirmationMessage :=
                       (if truthy (field (body req) ''confirmationMessage'')
                        then field (body req) ''confirmationMessage''
                        else JStr (''Your appointment has been confirmed for '' @
                                   string_of (field (body req) ''timeSlot'') @ '' on '' @
                                   toLocaleDateString e (field (body req) ''appointmentDate'')))\<rparr>]\<rparr>"
      by simp_all
  next
    fix f
    assume bad: "\<not> truthy (field (body req) ''confirmationMessage'')
                \<and> \<not> (convertible (field (body req) ''timeSlot'')
                       \<and> convertible (field (body req) ''appointmentDate''))"
    from confirm_thrown [OF t found, of "e\<lparr>sendAppointmentConfirmationEmail := f\<rparr>"] bad
    show "status_code (fst (confirm (e\<lparr>sendAppointmentConfirmationEmail := f\<rparr>) d aid req)) = 500"
      and "fst (snd (confirm (e\<lparr>sendAppointmentConfirmationEmail := f\<rparr>) d aid req)) = d"
      by simp_all
  qed
qed

theorem confirm_independent_of_notification_witness:
  "session req_confirm = Some session1 \<and> truthy (doctorId session1)
   \<and> (\<exists>a\<in>set (appointments db0). appt_id a = ''a1'' \<and> appt_doctorid a = doctorId session1)
   \<and> (\<forall>f. fst (snd (confirm (env0\<lparr>sendAppointmentConfirmationEmail := f\<rparr>) db0 ''a1'' req_confirm)) =
          db0\<lparr>appointments :=
                [appt1\<lparr>appt_status := JStr ''confirmed'', timeSlot := JStr ''10:00'',
                        appointmentDate := JStr ''2025-01-02'',
                        confirmationMessage :=
                          JStr ''Your appointment has been confirmed for 10:00 on 2025-01-02''\<rparr>,
                 appt2, appt3]\<rparr>
        \<and> status_code (fst (confirm (env0\<lparr>sendAppointmentConfirmationEmail := f\<rparr>) db0 ''a1'' req_confirm)) = 200)
   \<and> (\<forall>f. status_code
              (fst (confirm (env0\<lparr>sendAppointmentConfirmationEmail := f\<rparr>) db0 ''a1'' req_unprintable)) = 500
        \<and> fst (snd (confirm (env0\<lparr>sendAppointmentConfirmationEmail := f\<rparr>) db0 ''a1'' req_unprintable)) = db0)"
proof -
  have h1: "session req_confirm = Some session1" by (simp add: req_confirm_def)
  have h1': "session req_unprintable = Some session1" by (simp add: req_unprintable_def)
  have h2: "truthy (doctorId session1)" by (simp add: session1_def)
  have h3: "\<exists>a\<in>set (appointments db0). appt_id a = ''a1'' \<and> appt_doctorid a = doctorId session1"
    by (simp add: sample_defs)
  have ok: "convertible (field (body req_confirm) ''timeSlot'')
      \<and> convertible (field (body req_confirm) ''appointmentDate'')"
    by (simp add: req_confirm_def field_def)
  have bad: "\<not> truthy (field (body req_unprintable) ''confirmationMessage'')
      \<and> \<not> (convertible (field (body req_unprintable) ''timeSlot'')
             \<and> convertible (field (body req_unprintable) ''appointmentDate''))"
    by (simp add: req_unprintable_def field_def)
  from confirm_independent_of_notification [OF h1 h2 h3, of env0] ok
  obtain i a' where r:
    "i < length (appointments db0)" "appt_id (appointments db0 ! i) = ''a1''"
    "a' = (appointments db0 ! i)
            \<lparr>appt_status := JStr ''confirmed'',
             timeSlot := field (body req_confirm) ''timeSlot'',
             appointmentDate := field (body req_confirm) ''appointmentDate'',
             confirmationMessage :=
               (if truthy (field (body req_confirm) ''confirmationMessage'')
                then field (body req_confirm) ''confirmationMessage''
                else JStr (''Your appointment has been confirmed for '' @
                           string_of (field (body req_confirm) ''timeSlot'') @ '' on '' @
                           toLocaleDateString env0 (field (body req_confirm) ''appointmentDate'')))\<rparr>"
    "\<forall>f. fst (confirm (env0\<lparr>sendAppointmentConfirmationEmail := f\<rparr>) db0 ''a1'' req_confirm) =
            Json 200
              [(''success'', JBool True),
               (''message'', JStr ''Appointment confirmed successfully. Patient will be notified.''),
               (''appointment'', JObj (appointment_object a')),
               (''emailSent'', JBool True)]
        \<and> fst (snd (confirm (env0\<lparr>sendAppointmentConfirmationEmail := f\<rparr>) db0 ''a1'' req_confirm)) =
            db0\<lparr>appointments := (appointments db0)[i := a']\<rparr>"
    by blast
  from r(1) have "i = 0 \<or> i = 1 \<or> i = 2" by (auto simp: db0_def)
  with r(2) have i0: "i = 0" by (auto simp: db0_def appt2_def appt3_def)
  have a': "a' = appt1\<lparr>appt_status := JStr ''confirmed'', timeSlot := JStr ''10:00'',
                        appointmentDate := JStr ''2025-01-02'',
                        confirmationMessage :=
                          JStr ''Your appointment has been confirmed for 10:00 on 2025-01-02''\<rparr>"
    using r(3) i0
    by (simp add: db0_def req_confirm_def field_def env0_def)
  have good: "\<forall>f. fst (snd (confirm (env0\<lparr>sendAppointmentConfirmationEmail := f\<rparr>) db0 ''a1'' req_confirm)) =
          db0\<lparr>appointments :=
                [appt1\<lparr>appt_status := JStr ''confirmed'', timeSlot := JStr ''10:00'',
                        appointmentDate := JStr ''2025-01-02'',
                        confirmationMessage :=
                          JStr ''Your appointment has been confirmed for 10:00 on 2025-01-02''\<rparr>,
                 appt2, appt3]\<rparr>
        \<and> status_code (fst (confirm (env0\<lparr>sendAppointmentConfirmationEmail := f\<rparr>) db0 ''a1'' req_confirm)) = 200"
    using r(4) i0 a' by (simp add: db0_def)
  from confirm_independent_of_notification [OF h1' h2 h3, of env0] bad
  have thrown: "\<forall>f. status_code
              (fst (confirm (env0\<lparr>sendAppointmentConfirmationEmail := f\<rparr>) db0 ''a1'' req_unprintable)) = 500
        \<and> fst (snd (confirm (env0\<lparr>sendAppointmentConfirmationEmail := f\<rparr>) db0 ''a1'' req_unprintable)) = db0"
    by blast
  show ?thesis using h1 h2 h3 good thrown by blast
qed

text \<open>
  Against C1 as stated: the doctor of the session owns the appointment \<^verbatim>\<open>a1\<close>, the body
  has no confirmation message and a time slot that has no string; the template literal
  throws before \<^verbatim>\<open>save()\<close>, the answer is 500 and the appointment is not confirmed.
\<close>

theorem confirm_without_default_message:
  "session req_unprintable = Some session1
   \<and> appointments db0 ! 0 = appt1
   \<and> appt_id appt1 = ''a1'' \<and> appt_doctorid appt1 = doctorId session1
   \<and> appt_status appt1 = JStr ''pending''
   \<and> field (body req_unprintable) ''confirmationMessage'' = JUndefined
   \<and> field (body req_unprintable) ''timeSlot'' = JObj [(''toString'', JNum 1)]
   \<and> confirm env0 db0 ''a1'' req_unprintable =
       (Json 500
          [(''success'', JBool False),
           (''message'', JStr ''Error confirming appointment: TypeError'')],
        db0,
        [ConsoleLog ''The doctor is in appoints route '',
         ConsoleLog ''Confirming appointment:'',
         ConsoleError ''Appointment confirmation error:''])"
  by (simp add: confirm_def confirm_try_def isDoctorLoggedIn_def session_doctorId_def Let_def
      default_confirmation_def to_string_def json_failure_def field_def req_unprintable_def
      sample_defs)

text \<open>The notification's outcome is read: it decides the last line on the console.\<close>

lemma confirm_console:
  assumes "truthy (session_doctorId req)"
    and "findOne (\<lambda>a. appt_id a = aid \<and> appt_doctorid a = session_doctorId req) (appointments d) = Some (i, a)"
    and "truthy (field (body req) ''confirmationMessage'')"
  shows "last (snd (snd (confirm (e\<lparr>sendAppointmentConfirmationEmail := (\<lambda>a d. r)\<rparr>) d aid req))) =
           (case r of
              EmailResult ok \<Rightarrow>
                if ok then ConsoleLog ''Appointment confirmation email sent successfully to:''
                else ConsoleError ''Failed to send appointment confirmation email:''
            | EmailThrows \<Rightarrow> ConsoleError ''Error in email sending process:'')"
  using assms
  by (simp add: confirm_def confirm_try_def isDoctorLoggedIn_def Let_def notify_def
      split: prod.splits email_outcome.splits)

lemma confirm_not_found:
  assumes "truthy (session_doctorId req)"
    and "findOne (\<lambda>a. appt_id a = aid \<and> appt_doctorid a = session_doctorId req) (appointments d) = None"
  shows "fst (confirm e d aid req) =
           Json 404 [(''success'', JBool False), (''message'', JStr ''Appointment not found'')]"
    and "fst (snd (confirm e d aid req)) = d"
  using assms
  by (simp_all add: confirm_def confirm_try_def isDoctorLoggedIn_def Let_def json_failure_def)

text \<open>
  C2. A confirm request of a doctor's session for an appointment identifier that no
  appointment has, or whose appointment carries another doctor's identifier, is answered
  in both cases with the same 404 response "Appointment not found", never with 403, and
  the store is left as it was: no status, time slot, date or confirmation message changes.
\<close>

theorem confirm_not_owned_is_not_found:
  assumes "truthy (session_doctorId req)"
    and "(\<forall>a\<in>set (appointments d). appt_id a \<noteq> aid)
         \<or> (\<forall>a\<in>set (appointments d). appt_id a = aid \<longrightarrow> appt_doctorid a \<noteq> session_doctorId req)"
  shows "fst (confirm e d aid req) =
           Json 404 [(''success'', JBool False), (''message'', JStr ''Appointment not found'')]
         \<and> status_code (fst (confirm e d aid req)) \<noteq> 403
         \<and> fst (snd (confirm e d aid req)) = d"
proof -
  from assms(2)
  have "\<forall>a\<in>set (appointments d). \<not> (appt_id a = aid \<and> appt_doctorid a = session_doctorId req)"
    by blast
  then have none: "findOne (\<lambda>a. appt_id a = aid \<and> appt_doctorid a = session_doctorId req)
                     (appointments d) = None"
    by (simp add: findOne_None_iff)
  show ?thesis
    using confirm_not_found [OF assms(1) none, of e] by simp
qed

theorem confirm_not_owned_is_not_found_witness:
  "truthy (session_doctorId req_other)
   \<and> fst (confirm env0 db0 ''a9'' req_other) =
       Json 404 [(''success'', JBool False), (''message'', JStr ''Appointment not found'')]
   \<and> fst (snd (confirm env0 db0 ''a9'' req_other)) = db0
   \<and> appt_id (appointments db0 ! 0) = ''a1''
   \<and> appt_doctorid (appointments db0 ! 0) \<noteq> session_doctorId req_other
   \<and> fst (confirm env0 db0 ''a1'' req_other) = fst (confirm env0 db0 ''a9'' req_other)
   \<and> fst (snd (confirm env0 db0 ''a1'' req_other)) = db0"
proof -
  have t: "truthy (session_doctorId req_other)"
    by (simp add: req_other_def session_doctorId_def)
  have missing: "\<forall>a\<in>set (appointments db0). appt_id a \<noteq> ''a9''"
    by (simp add: sample_defs)
  have other: "\<forall>a\<in>set (appointments db0).
                 appt_id a = ''a1'' \<longrightarrow> appt_doctorid a \<noteq> session_doctorId req_other"
    by (simp add: sample_defs req_other_def session_doctorId_def)
  have p: "appt_id (appointments db0 ! 0) = ''a1''"
    "appt_doctorid (appointments db0 ! 0) \<noteq> session_doctorId req_other"
    by (simp_all add: sample_defs req_other_def session_doctorId_def)
  show ?thesis
    using t p
      confirm_not_owned_is_not_found [OF t disjI1 [OF missing], of env0]
      confirm_not_owned_is_not_found [OF t disjI2 [OF other], of env0]
    by simp
qed

text \<open>
  C9, as the code has it. The confirmation does not look at the appointment's current
  status: on an owned appointment that is already confirmed, a further confirm request
  whose confirmation message is truthy, or whose time slot and appointment date convert
  to strings, succeeds as well and overwrites the stored time slot, appointment date and
  confirmation message with the newly supplied values, or the derived default message.
\<close>

theorem confirm_again_overwrites:
  assumes "session req = Some s" and "truthy (doctorId s)"
    and "\<exists>a\<in>set (appointments d). appt_id a = aid \<and> appt_doctorid a = doctorId s"
    and "\<forall>a\<in>set (appointments d).
           appt_id a = aid \<and> appt_doctorid a = doctorId s \<longrightarrow> appt_status a = JStr ''confirmed''"
    and "truthy (field (body req) ''confirmationMessage'')
         \<or> (convertible (field (body req) ''timeSlot'')
            \<and> convertible (field (body req) ''appointmentDate''))"
  shows "\<exists>i a'. i < length (appointments d)
           \<and> appt_id (appointments d ! i) = aid
           \<and> appt_doctorid (appointments d ! i) = doctorId s
           \<and> appt_status (appointments d ! i) = JStr ''confirmed''
           \<and> status_code (fst (confirm e d aid req)) = 200
           \<and> appointments (fst (snd (confirm e d aid req))) = (appointments d)[i := a']
           \<and> appt_status a' = JStr ''confirmed''
           \<and> timeSlot a' = field (body req) ''timeSlot''
           \<and> appointmentDate a' = field (body req) ''appointmentDate''
           \<and> confirmationMessage a' =
               (if truthy (field (body req) ''confirmationMessage'')
                then field (body req) ''confirmationMessage''
                else JStr (''Your appointment has been confirmed for '' @
                           string_of (field (body req) ''timeSlot'') @ '' on '' @
                           toLocaleDateString e (field (body req) ''appointmentDate'')))"
proof -
  let ?P = "\<lambda>a. appt_id a = aid \<and> appt_doctorid a = session_doctorId req"
  have sid: "session_doctorId req = doctorId s"
    using assms(1) by (simp add: session_doctorId_def)
  from assms(3) sid have "\<exists>x\<in>set (appointments d). ?P x" by simp
  then obtain i a where found: "findOne ?P (appointments d) = Some (i, a)"
    using findOne_Some_if [of "appointments d" ?P] by blast
  from findOne_SomeD [OF found] sid
  have i: "i < length (appointments d)" "appointments d ! i = a"
    "appt_id a = aid" "appt_doctorid a = doctorId s"
    by simp_all
  from i(1,2) have "a \<in> set (appointments d)" by auto
  with assms(4) i(3,4) have st: "appt_status a = JStr ''confirmed''" by blast
  have t: "truthy (session_doctorId req)" using assms(2) sid by simp
  let ?a' = "a\<lparr>appt_status := JStr ''confirmed'',
                 timeSlot := field (body req) ''timeSlot'',
                 appointmentDate := field (body req) ''appointmentDate'',
                 confirmationMessage :=
                   (if truthy (field (body req) ''confirmationMessage'')
                    then field (body req) ''confirmationMessage''
                    else JStr (''Your appointment has been confirmed for '' @
                               string_of (field (body req) ''timeSlot'') @ '' on '' @
                               toLocaleDateString e (field (body req) ''appointmentDate'')))\<rparr>"
  from confirm_found [OF t found assms(5), of e]
  have "status_code (fst (confirm e d aid req)) = 200"
    and "appointments (fst (snd (confirm e d aid req))) = (appointments d)[i := ?a']"
    by simp_all
  with i st show ?thesis
    by (intro exI [of _ i] exI [of _ ?a']) simp
qed

lemma db_confirmed_eq:
  "db_confirmed =
     db0\<lparr>appointments :=
           [appt1\<lparr>appt_status := JStr ''confirmed'', timeSlot := JStr ''10:00'',
                   appointmentDate := JStr ''2025-01-02'',
                   confirmationMessage :=
                     JStr ''Your appointment has been confirmed for 10:00 on 2025-01-02''\<rparr>,
            appt2, appt3]\<rparr>"
  by (simp add: db_confirmed_def confirm_def isDoctorLoggedIn_def session_doctorId_def Let_def
      confirm_try_def field_def default_confirmation_def to_string_def date_string_def sample_defs)

theorem confirm_again_overwrites_witness:
  "appt_status (appointments db_confirmed ! 0) = JStr ''confirmed''
   \<and> timeSlot (appointments db_confirmed ! 0) = JStr ''10:00''
   \<and> status_code (fst (confirm env0 db_confirmed ''a1'' req_again)) = 200
   \<and> appt_status (appointments (fst (snd (confirm env0 db_confirmed ''a1'' req_again))) ! 0) =
       JStr ''confirmed''
   \<and> timeSlot (appointments (fst (snd (confirm env0 db_confirmed ''a1'' req_again))) ! 0) =
       JStr ''11:30''
   \<and> appointmentDate (appointments (fst (snd (confirm env0 db_confirmed ''a1'' req_again))) ! 0) =
       JStr ''2025-02-03''
   \<and> confirmationMessage (appointments (fst (snd (confirm env0 db_confirmed ''a1'' req_again))) ! 0) =
       JStr ''Moved''"
proof -
  have h1: "session req_again = Some session1" by (simp add: req_again_def)
  have h2: "truthy (doctorId session1)" by (simp add: session1_def)
  have h3: "\<exists>a\<in>set (appointments db_confirmed).
              appt_id a = ''a1'' \<and> appt_doctorid a = doctorId session1"
    by (simp add: db_confirmed_eq sample_defs)
  have h4: "\<forall>a\<in>set (appointments db_confirmed).
              appt_id a = ''a1'' \<and> appt_doctorid a = doctorId session1 \<longrightarrow>
              appt_status a = JStr ''confirmed''"
    by (simp add: db_confirmed_eq sample_defs)
  have h5: "truthy (field (body req_again) ''confirmationMessage'')
      \<or> (convertible (field (body req_again) ''timeSlot'')
         \<and> convertible (field (body req_again) ''appointmentDate''))"
    by (simp add: req_again_def field_def)
  from confirm_again_overwrites [OF h1 h2 h3 h4 h5, of env0]
  obtain i a' where r:
    "i < length (appointments db_confirmed)"
    "appt_id (appointments db_confirmed ! i) = ''a1''"
    "status_code (fst (confirm env0 db_confirmed ''a1'' req_again)) = 200"
    "appointments (fst (snd (confirm env0 db_confirmed ''a1'' req_again))) =
       (appointments db_confirmed)[i := a']"
    "appt_status a' = JStr ''confirmed''"
    "timeSlot a' = field (body req_again) ''timeSlot''"
    "appointmentDate a' = field (body req_again) ''appointmentDate''"
    "confirmationMessage a' =
       (if truthy (field (body req_again) ''confirmationMessage'')
        then field (body req_again) ''confirmationMessage''
        else JStr (''Your appointment has been confirmed for '' @
                   string_of (field (body req_again) ''timeSlot'') @ '' on '' @
                   toLocaleDateString env0 (field (body req_again) ''appointmentDate'')))"
    by blast
  from r(1) have "i = 0 \<or> i = 1 \<or> i = 2" by (auto simp: db_confirmed_eq db0_def)
  with r(2) have i0: "i = 0" by (auto simp: db_confirmed_eq db0_def appt2_def appt3_def)
  have before: "appt_status (appointments db_confirmed ! 0) = JStr ''confirmed''"
    "timeSlot (appointments db_confirmed ! 0) = JStr ''10:00''"
    by (simp_all add: db_confirmed_eq)
  have len: "0 < length (appointments db_confirmed)" by (simp add: db_confirmed_eq)
  show ?thesis
    using before r(3-8) i0 len by (simp add: req_again_def field_def)
qed

text \<open>
  Against C9 as stated: the appointment \<^verbatim>\<open>a1\<close> is owned and already confirmed, the body has
  no confirmation message and a time slot that has no string; the answer is 500 and the
  stored time slot is not overwritten.
\<close>

theorem confirm_again_without_default_message:
  "session req_unprintable = Some session1
   \<and> appt_id (appointments db_confirmed ! 0) = ''a1''
   \<and> appt_doctorid (appointments db_confirmed ! 0) = doctorId session1
   \<and> appt_status (appointments db_confirmed ! 0) = JStr ''confirmed''
   \<and> field (body req_unprintable) ''timeSlot'' = JObj [(''toString'', JNum 1)]
   \<and> status_code (fst (confirm env0 db_confirmed ''a1'' req_unprintable)) = 500
   \<and> fst (snd (confirm env0 db_confirmed ''a1'' req_unprintable)) = db_confirmed
   \<and> timeSlot (appointments (fst (snd (confirm env0 db_confirmed ''a1'' req_unprintable))) ! 0) =
       JStr ''10:00''"
  by (simp add: db_confirmed_eq)
     (simp add: confirm_def confirm_try_def isDoctorLoggedIn_def session_doctorId_def Let_def
      default_confirmation_def to_string_def json_failure_def field_def req_unprintable_def
      sample_defs)

section \<open>Login\<close>

lemma findOne_mem: "findOne P xs = Some (i, x) \<Longrightarrow> x \<in> set xs \<and> P x"
  using findOne_SomeD [of P xs i x] nth_mem [of i xs] by auto

lemma login_unapproved:
  assumes "findOne (\<lambda>x. email x = field (body req) ''email'') (doctors d) = Some (i, doc)"
    and "status doc \<noteq> JStr ''approved''"
  shows "login e d req =
           (Json 403
              [(''success'', JBool False),
               (''message'', JStr ''Your account is pending approval. Please wait for admin approval.'')],
            session req)"
  using assms by (simp add: login_def login_try_def Let_def json_failure_def)

lemma login_session_changed:
  assumes "snd (login e d req) \<noteq> session req"
  shows "\<exists>doc\<in>set (doctors d). status doc = JStr ''approved''
           \<and> fst (login e d req) =
                Json 200
                  [(''success'', JBool True), (''message'', JStr ''Login successful''),
                   (''doctorId'', doctorid doc), (''redirectUrl'', JStr ''/doctor/dashboard'')]"
proof (cases "findOne (\<lambda>x. email x = field (body req) ''email'') (doctors d)")
  case None
  with assms show ?thesis by (simp add: login_def login_try_def Let_def)
next
  case (Some p)
  obtain i doc where p: "p = (i, doc)" by (cases p)
  from Some p have mem: "doc \<in> set (doctors d)" by (auto dest: findOne_mem)
  from assms Some p have "status doc = JStr ''approved''
      \<and> fst (login e d req) =
                Json 200
                  [(''success'', JBool True), (''message'', JStr ''Login successful''),
                   (''doctorId'', doctorid doc), (''redirectUrl'', JStr ''/doctor/dashboard'')]"
    by (auto simp: login_def login_try_def Let_def split: if_splits sum.splits option.splits)
  with mem show ?thesis by blast
qed

text \<open>
  C3. A login request for a doctor whose stored record has a status other than "approved"
  fails with 403 and leaves the session as it was, whatever the password comparison \<open>cmp\<close>
  would answer: the status is checked first. The session changes only on the success
  path, where the doctor found is approved and the response is the success response.
\<close>

theorem login_requires_approval:
  "((\<exists>x\<in>set (doctors d). email x = field (body req) ''email'')
      \<and> (\<forall>x\<in>set (doctors d). email x = field (body req) ''email'' \<longrightarrow> status x \<noteq> JStr ''approved'')
    \<longrightarrow> (\<forall>cmp. login (e\<lparr>bcrypt_compare_fn := cmp\<rparr>) d req =
            (Json 403
               [(''success'', JBool False),
                (''message'', JStr ''Your account is pending approval. Please wait for admin approval.'')],
             session req)))
   \<and> (snd (login e d req) \<noteq> session req
    \<longrightarrow> (\<exists>doc\<in>set (doctors d). status doc = JStr ''approved''
           \<and> fst (login e d req) =
                Json 200
                  [(''success'', JBool True), (''message'', JStr ''Login successful''),
                   (''doctorId'', doctorid doc), (''redirectUrl'', JStr ''/doctor/dashboard'')]))"
proof (intro conjI impI allI)
  fix cmp
  let ?P = "\<lambda>x. email x = field (body req) ''email''"
  assume a: "(\<exists>x\<in>set (doctors d). ?P x) \<and> (\<forall>x\<in>set (doctors d). ?P x \<longrightarrow> status x \<noteq> JStr ''approved'')"
  then obtain i doc where found: "findOne ?P (doctors d) = Some (i, doc)"
    using findOne_Some_if [of "doctors d" ?P] by blast
  from findOne_mem [OF found] have "doc \<in> set (doctors d)" "?P doc" by auto
  with a have "status doc \<noteq> JStr ''approved''" by blast
  from login_unapproved [OF found this]
  show "login (e\<lparr>bcrypt_compare_fn := cmp\<rparr>) d req =
            (Json 403
               [(''success'', JBool False),
                (''message'', JStr ''Your account is pending approval. Please wait for admin approval.'')],
             session req)" .
next
  assume "snd (login e d req) \<noteq> session req"
  then show "\<exists>doc\<in>set (doctors d). status doc = JStr ''approved''
           \<and> fst (login e d req) =
                Json 200
                  [(''success'', JBool True), (''message'', JStr ''Login successful''),
                   (''doctorId'', doctorid doc), (''redirectUrl'', JStr ''/doctor/dashboard'')]"
    by (rule login_session_changed)
qed

theorem login_requires_approval_witness:
  "bcrypt_compare_fn env0 ''p'' ''$2a$10$p''
   \<and> passwordHash doctor1 = JStr ''$2a$10$p''
   \<and> login env0 db0 req_login =
       (Json 403
          [(''success'', JBool False),
           (''message'', JStr ''Your account is pending approval. Please wait for admin approval.'')],
        session req_login)
   \<and> snd (login env0 db_approved req_login) =
       Some \<lparr>doctorId = JStr ''DOC1'', doctorEmail = JStr ''a@x.com''\<rparr>
   \<and> status_code (fst (login env0 db_approved req_login)) = 200"
proof -
  have h1: "\<exists>x\<in>set (doctors db0). email x = field (body req_login) ''email''"
    by (simp add: sample_defs req_login_def field_def)
  have h2: "\<forall>x\<in>set (doctors db0).
              email x = field (body req_login) ''email'' \<longrightarrow> status x \<noteq> JStr ''approved''"
    by (simp add: sample_defs)
  have same: "env0\<lparr>bcrypt_compare_fn := bcrypt_compare_fn env0\<rparr> = env0" by simp
  have after: "snd (login env0 db_approved req_login) =
                 Some \<lparr>doctorId = JStr ''DOC1'', doctorEmail = JStr ''a@x.com''\<rparr>"
    by (simp add: login_def login_try_def Let_def bcrypt_compare_def field_def
        db_approved_def req_login_def sample_defs)
  then have changed: "snd (login env0 db_approved req_login) \<noteq> session req_login"
    by (simp add: req_login_def)
  from login_requires_approval [of db0 req_login env0] h1 h2
  have "login (env0\<lparr>bcrypt_compare_fn := bcrypt_compare_fn env0\<rparr>) db0 req_login =
       (Json 403
          [(''success'', JBool False),
           (''message'', JStr ''Your account is pending approval. Please wait for admin approval.'')],
        session req_login)"
    by blast
  moreover from login_requires_approval [of db_approved req_login env0] changed
  have "status_code (fst (login env0 db_approved req_login)) = 200" by auto
  ultimately show ?thesis
    using after same by (simp add: env0_def doctor1_def)
qed

section \<open>Registration\<close>

lemma is_string_iff: "is_string v \<longleftrightarrow> (\<exists>s. v = JStr s)"
  by (cases v) simp_all

lemma register_existing:
  assumes "findOne (\<lambda>x. email x = field (body req) ''email'') (doctors d) = Some p"
  shows "register e d req =
           (Json 400
              [(''success'', JBool False),
               (''message'', JStr ''Doctor with this email already exists'')], d)"
  using assms by (simp add: register_def register_try_def Let_def json_failure_def)

lemma register_created:
  assumes "findOne (\<lambda>x. email x = field (body req) ''email'') (doctors d) = None"
    and "field (body req) ''password'' = JStr pw"
    and "field (body req) ''specialization'' = JStr sp"
    and "field (body req) ''location'' = JStr lo"
  shows "register e d req =
           (Json 201
              [(''success'', JBool True),
               (''message'', JStr ''Doctor registered successfully! Please wait for admin approval.''),
               (''doctorId'', JStr (generateCode e))],
            d\<lparr>doctors := doctors d @
               [\<lparr>name = field (body req) ''name'', email = field (body req) ''email'',
                 passwordHash = JStr (bcrypt_hash_fn e pw),
                 phone = field (body req) ''phone'', gender = field (body req) ''gender'',
                 specialization = JStr (toLowerCase sp), location = JStr (toLowerCase lo),
                 hospitalName =
                   (if truthy (field (body req) ''hospitalName'')
                    then field (body req) ''hospitalName'' else JStr []),
                 doctorid = JStr (generateCode e), status = JStr ''pending'',
                 profilePicture = JUndefined\<rparr>]\<rparr>)"
  using assms
  by (simp add: register_def register_try_def Let_def bcrypt_hash_def js_or_def)

lemma call_toLowerCase_Inl: "\<not> is_string v \<Longrightarrow> \<exists>err. call_toLowerCase v = Inl err"
  by (cases v) simp_all

lemma register_thrown:
  assumes "findOne (\<lambda>x. email x = field (body req) ''email'') (doctors d) = None"
    and "\<not> (is_string (field (body req) ''password'')
            \<and> is_string (field (body req) ''specialization'')
            \<and> is_string (field (body req) ''location''))"
  shows "status_code (fst (register e d req)) = 500 \<and> snd (register e d req) = d"
proof (cases "is_string (field (body req) ''password'')")
  case False
  then show ?thesis using assms(1)
    by (cases "field (body req) ''password''")
       (simp_all add: register_def register_try_def Let_def bcrypt_hash_def json_failure_def)
next
  case pw: True
  then obtain p where p: "field (body req) ''password'' = JStr p"
    by (auto simp: is_string_iff)
  show ?thesis
  proof (cases "is_string (field (body req) ''specialization'')")
    case False
    then obtain err where "call_toLowerCase (field (body req) ''specialization'') = Inl err"
      using call_toLowerCase_Inl by blast
    then show ?thesis using assms(1) p
      by (simp add: register_def register_try_def Let_def bcrypt_hash_def json_failure_def)
  next
    case True
    then obtain sp where sp: "field (body req) ''specialization'' = JStr sp"
      by (auto simp: is_string_iff)
    from True pw assms(2) have "\<not> is_string (field (body req) ''location'')" by simp
    then obtain err where "call_toLowerCase (field (body req) ''location'') = Inl err"
      using call_toLowerCase_Inl by blast
    then show ?thesis using assms(1) p sp
      by (simp add: register_def register_try_def Let_def bcrypt_hash_def json_failure_def)
  qed
qed

text \<open>
  C4, as the code has it. A registration request whose email some doctor of the
  collection has is answered 400 "Doctor with this email already exists" and creates no
  record. Otherwise, when the password, the specialization and the location of the body
  are strings, the password is hashed, an identifier is generated, the doctor is stored
  with status "pending" and the response is 201 with the generated identifier. Otherwise
  the hashing or a \<^verbatim>\<open>toLowerCase\<close> call throws, the response is 500 and no record is created.
\<close>

theorem register_outcomes:
  "((\<exists>x\<in>set (doctors d). email x = field (body req) ''email'')
      \<longrightarrow> register e d req =
            (Json 400
               [(''success'', JBool False),
                (''message'', JStr ''Doctor with this email already exists'')], d))
   \<and> ((\<forall>x\<in>set (doctors d). email x \<noteq> field (body req) ''email'')
        \<and> field (body req) ''password'' = JStr pw
        \<and> field (body req) ''specialization'' = JStr sp
        \<and> field (body req) ''location'' = JStr lo
      \<longrightarrow> register e d req =
            (Json 201
               [(''success'', JBool True),
                (''message'', JStr ''Doctor registered successfully! Please wait for admin approval.''),
                (''doctorId'', JStr (generateCode e))],
             d\<lparr>doctors := doctors d @
                [\<lparr>name = field (body req) ''name'', email = field (body req) ''email'',
                  passwordHash = JStr (bcrypt_hash_fn e pw),
                  phone = field (body req) ''phone'', gender = field (body req) ''gender'',
                  specialization = JStr (toLowerCase sp), location = JStr (toLowerCase lo),
                  hospitalName =
                    (if truthy (field (body req) ''hospitalName'')
                     then field (body req) ''hospitalName'' else JStr []),
                  doctorid = JStr (generateCode e), status = JStr ''pending'',
                  profilePicture = JUndefined\<rparr>]\<rparr>))
   \<and> ((\<forall>x\<in>set (doctors d). email x \<noteq> field (body req) ''email'')
        \<and> \<not> (is_string (field (body req) ''password'')
               \<and> is_string (field (body req) ''specialization'')
               \<and> is_string (field (body req) ''location''))
      \<longrightarrow> status_code (fst (register e d req)) = 500 \<and> snd (register e d req) = d)"
proof (intro conjI impI)
  assume "\<exists>x\<in>set (doctors d). email x = field (body req) ''email''"
  then obtain i x where "findOne (\<lambda>x. email x = field (body req) ''email'') (doctors d) = Some (i, x)"
    using findOne_Some_if [of "doctors d" "\<lambda>x. email x = field (body req) ''email''"] by blast
  then show "register e d req =
            (Json 400
               [(''success'', JBool False),
                (''message'', JStr ''Doctor with this email already exists'')], d)"
    by (rule register_existing)
next
  assume a: "(\<forall>x\<in>set (doctors d). email x \<noteq> field (body req) ''email'')
        \<and> field (body req) ''password'' = JStr pw
        \<and> field (body req) ''specialization'' = JStr sp
        \<and> field (body req) ''location'' = JStr lo"
  then have "findOne (\<lambda>x. email x = field (body req) ''email'') (doctors d) = None"
    by (simp add: findOne_None_iff)
  with a show "register e d req =
            (Json 201
               [(''success'', JBool True),
                (''message'', JStr ''Doctor registered successfully! Please wait for admin approval.''),
                (''doctorId'', JStr (generateCode e))],
             d\<lparr>doctors := doctors d @
                [\<lparr>name = field (body req) ''name'', email = field (body req) ''email'',
                  passwordHash = JStr (bcrypt_hash_fn e pw),
                  phone = field (body req) ''phone'', gender = field (body req) ''gender'',
                  specialization = JStr (toLowerCase sp), location = JStr (toLowerCase lo),
                  hospitalName =
                    (if truthy (field (body req) ''hospitalName'')
                     then field (body req) ''hospitalName'' else JStr []),
                  doctorid = JStr (generateCode e), status = JStr ''pending'',
                  profilePicture = JUndefined\<rparr>]\<rparr>)"
    by (intro register_created) simp_all
next
  assume a: "(\<forall>x\<in>set (doctors d). email x \<noteq> field (body req) ''email'')
        \<and> \<not> (is_string (field (body req) ''password'')
               \<and> is_string (field (body req) ''specialization'')
               \<and> is_string (field (body req) ''location''))"
  then have "findOne (\<lambda>x. email x = field (body req) ''email'') (doctors d) = None"
    by (simp add: findOne_None_iff)
  with a show "status_code (fst (register e d req)) = 500" "snd (register e d req) = d"
    using register_thrown [of req d e] by blast+
qed

lemma toLowerCase_Cardio: "toLowerCase ''Cardio'' = ''cardio''" "toLowerCase ''NY'' = ''ny''"
  by code_simp+

theorem register_outcomes_witness:
  "register env0 db0 req_register =
     (Json 201
        [(''success'', JBool True),
         (''message'', JStr ''Doctor registered successfully! Please wait for admin approval.''),
         (''doctorId'', JStr ''DOC7'')],
      db0\<lparr>doctors :=
            [doctor1,
             \<lparr>name = JStr ''B'', email = JStr ''b@x.com'', passwordHash = JStr ''$2a$10$p'',
              phone = JStr ''2'', gender = JStr ''f'', specialization = JStr ''cardio'',
              location = JStr ''ny'', hospitalName = JStr [], doctorid = JStr ''DOC7'',
              status = JStr ''pending'', profilePicture = JUndefined\<rparr>]\<rparr>)
   \<and> register env0 (snd (register env0 db0 req_register)) req_register =
       (Json 400
          [(''success'', JBool False),
           (''message'', JStr ''Doctor with this email already exists'')],
        snd (register env0 db0 req_register))
   \<and> status_code (fst (register env0 db0 req_register_short)) = 500
   \<and> snd (register env0 db0 req_register_short) = db0"
proof -
  have fresh: "\<forall>x\<in>set (doctors db0). email x \<noteq> field (body req_register) ''email''"
    "\<forall>x\<in>set (doctors db0). email x \<noteq> field (body req_register_short) ''email''"
    by (simp_all add: sample_defs req_register_def req_register_short_def field_def)
  have fields: "field (body req_register) ''password'' = JStr ''p''"
    "field (body req_register) ''specialization'' = JStr ''Cardio''"
    "field (body req_register) ''location'' = JStr ''NY''"
    by (simp_all add: req_register_def field_def)
  have first: "register env0 db0 req_register =
     (Json 201
        [(''success'', JBool True),
         (''message'', JStr ''Doctor registered successfully! Please wait for admin approval.''),
         (''doctorId'', JStr ''DOC7'')],
      db0\<lparr>doctors :=
            [doctor1,
             \<lparr>name = JStr ''B'', email = JStr ''b@x.com'', passwordHash = JStr ''$2a$10$p'',
              phone = JStr ''2'', gender = JStr ''f'', specialization = JStr ''cardio'',
              location = JStr ''ny'', hospitalName = JStr [], doctorid = JStr ''DOC7'',
              status = JStr ''pending'', profilePicture = JUndefined\<rparr>]\<rparr>)"
    using register_outcomes [where d = db0 and req = req_register and e = env0 and pw = "''p''"
        and sp = "''Cardio''" and lo = "''NY''"] fresh(1) fields
    by (simp add: toLowerCase_Cardio) (simp add: req_register_def field_def env0_def db0_def)
  have again: "\<exists>x\<in>set (doctors (snd (register env0 db0 req_register))).
                 email x = field (body req_register) ''email''"
    by (simp add: first) (simp add: req_register_def field_def)
  have short: "\<not> (is_string (field (body req_register_short) ''password'')
                 \<and> is_string (field (body req_register_short) ''specialization'')
                 \<and> is_string (field (body req_register_short) ''location''))"
    by (simp add: req_register_short_def field_def)
  have second: "register env0 (snd (register env0 db0 req_register)) req_register =
       (Json 400
          [(''success'', JBool False),
           (''message'', JStr ''Doctor with this email already exists'')],
        snd (register env0 db0 req_register))"
    using register_outcomes [where d = "snd (register env0 db0 req_register)"
        and req = req_register and e = env0] again
    by blast
  have third: "status_code (fst (register env0 db0 req_register_short)) = 500
      \<and> snd (register env0 db0 req_register_short) = db0"
    using register_outcomes [where d = db0 and req = req_register_short and e = env0]
      fresh(2) short
    by blast
  show ?thesis
    by (intro conjI first second third [THEN conjunct1] third [THEN conjunct2])
qed

text \<open>
  Against C4 as stated: a request with a fresh email and no specialization is answered
  500, not 201, and stores nothing.
\<close>

theorem register_without_specialization:
  "doctors db0 = [doctor1] \<and> email doctor1 = JStr ''a@x.com''
   \<and> field (body req_register_short) ''email'' = JStr ''b@x.com''
   \<and> field (body req_register_short) ''specialization'' = JUndefined
   \<and> register env0 db0 req_register_short =
       (Json 500
          [(''success'', JBool False),
           (''message'', JStr ''Error registering doctor: TypeError'')], db0)"
  by (simp add: register_def register_try_def Let_def bcrypt_hash_def json_failure_def
      field_def req_register_short_def sample_defs)

section \<open>The gate on the doctor's routes\<close>

text \<open>
  C5, as the code has it. A request with no session, or with a session whose doctor
  identifier is absent or falsy, is answered by the gate on every protected route, page
  and JSON route alike, with a redirect to the login page; the handler does not run and
  the store is left as it was.
\<close>

theorem gate_redirects_every_route:
  assumes "\<not> truthy (session_doctorId req)"
  shows "dashboard d req = Redirect ''/doctorLogin'' []
         \<and> get_profile d req = Redirect ''/doctorLogin'' []
         \<and> profile_update e d req = (Redirect ''/doctorLogin'' [], d)
         \<and> profile_picture e d req = (Redirect ''/doctorLogin'' [], d)
         \<and> get_appointments d req = Redirect ''/doctorLogin'' []
         \<and> confirm e d aid req = (Redirect ''/doctorLogin'' [], d, [])"
  using assms
  by (simp add: isDoctorLoggedIn_def dashboard_def get_profile_def profile_update_def
      profile_picture_def get_appointments_def confirm_def)

theorem gate_redirects_every_route_witness:
  "\<not> truthy (session_doctorId req_anonymous)
   \<and> dashboard db0 req_anonymous = Redirect ''/doctorLogin'' []
   \<and> get_profile db0 req_anonymous = Redirect ''/doctorLogin'' []
   \<and> profile_update env0 db0 req_anonymous = (Redirect ''/doctorLogin'' [], db0)
   \<and> profile_picture env0 db0 req_anonymous = (Redirect ''/doctorLogin'' [], db0)
   \<and> get_appointments db0 req_anonymous = Redirect ''/doctorLogin'' []
   \<and> confirm env0 db0 ''a1'' req_anonymous = (Redirect ''/doctorLogin'' [], db0, [])"
proof -
  have h: "\<not> truthy (session_doctorId req_anonymous)"
    by (simp add: session_doctorId_def req_anonymous_def)
  show ?thesis
    using h gate_redirects_every_route [OF h, of db0 env0 "''a1''"] by simp
qed

text \<open>
  Against C5 as stated: without a session the two JSON routes answer with the redirect,
  status 302, and not with a 401 or 403.
\<close>

theorem json_routes_redirect_without_session:
  "session req_anonymous = None
   \<and> get_appointments db0 req_anonymous = Redirect ''/doctorLogin'' []
   \<and> status_code (get_appointments db0 req_anonymous) = 302
   \<and> fst (confirm env0 db0 ''a1'' req_anonymous) = Redirect ''/doctorLogin'' []
   \<and> status_code (fst (confirm env0 db0 ''a1'' req_anonymous)) = 302"
  by (simp add: get_appointments_def confirm_def isDoctorLoggedIn_def session_doctorId_def
      req_anonymous_def)

section \<open>Updating the profile\<close>

lemma map_list_update_same:
  "i < length xs \<Longrightarrow> f y = f (xs ! i) \<Longrightarrow> map f (xs[i := y]) = map f xs"
  by (induction xs arbitrary: i) (auto split: nat.splits)

lemma filter_list_update_other:
  "i < length xs \<Longrightarrow> \<not> P (xs ! i) \<Longrightarrow> \<not> P y \<Longrightarrow> filter P (xs[i := y]) = filter P xs"
  by (induction xs arbitrary: i) (auto split: nat.splits)

lemma passwordHash_not_selected:
  "''passwordHash'' \<notin> fst ` set (select_minus ''passwordHash'' kvs)"
  by (auto simp: select_minus_def)

lemma profile_update_found:
  assumes "truthy (session_doctorId req)"
    and "findOne (\<lambda>x. doctorid x = session_doctorId req) (doctors d) = Some (i, found)"
  shows "profile_update e d req =
           (Json 200
              [(''success'', JBool True), (''message'', JStr ''Profile updated successfully''),
               (''doctor'',
                  JObj (select_minus ''passwordHash'' (doctor_object (updated_profile e req found))))],
            d\<lparr>doctors := (doctors d)[i := updated_profile e req found]\<rparr>)"
  using assms
  by (simp add: profile_update_def isDoctorLoggedIn_def Let_def updated_profile_def)

lemma profile_update_none:
  assumes "findOne (\<lambda>x. doctorid x = session_doctorId req) (doctors d) = None"
  shows "snd (profile_update e d req) = d"
    and "json_field (fst (profile_update e d req)) ''doctor'' \<noteq> JObj kvs"
  using assms
  by (simp_all add: profile_update_def isDoctorLoggedIn_def Let_def field_def)

lemma profile_update_gate:
  assumes "\<not> truthy (session_doctorId req)"
  shows "snd (profile_update e d req) = d"
    and "json_field (fst (profile_update e d req)) ''doctor'' \<noteq> JObj kvs"
  using assms by (simp_all add: profile_update_def isDoctorLoggedIn_def)

text \<open>
  C6. A profile update, for every request, leaves the email, password hash, gender,
  doctor identifier, approval status and profile picture of every doctor record as they
  were, so only name, phone, specialization, location and hospital name may change; the
  records of the other doctors and the appointments are untouched; and the doctor record
  in the response has no password hash field.
\<close>

theorem profile_update_frame:
  "map (\<lambda>x. (email x, passwordHash x, gender x, doctorid x, status x, profilePicture x))
       (doctors (snd (profile_update e d req))) =
   map (\<lambda>x. (email x, passwordHash x, gender x, doctorid x, status x, profilePicture x))
       (doctors d)
   \<and> filter (\<lambda>x. doctorid x \<noteq> session_doctorId req) (doctors (snd (profile_update e d req))) =
     filter (\<lambda>x. doctorid x \<noteq> session_doctorId req) (doctors d)
   \<and> appointments (snd (profile_update e d req)) = appointments d
   \<and> (\<forall>kvs. json_field (fst (profile_update e d req)) ''doctor'' = JObj kvs
          \<longrightarrow> ''passwordHash'' \<notin> fst ` set kvs)"
proof (cases "truthy (session_doctorId req)")
  case False
  from profile_update_gate [OF this] show ?thesis by simp
next
  case t: True
  show ?thesis
  proof (cases "findOne (\<lambda>x. doctorid x = session_doctorId req) (doctors d)")
    case None
    from profile_update_none [OF this] show ?thesis by simp
  next
    case (Some p)
    obtain i found where p: "p = (i, found)" by (cases p)
    let ?u = "updated_profile e req found"
    from Some p have found: "findOne (\<lambda>x. doctorid x = session_doctorId req) (doctors d) = Some (i, found)"
      by simp
    from findOne_SomeD [OF found]
    have i: "i < length (doctors d)" "doctors d ! i = found"
      "doctorid found = session_doctorId req"
      by simp_all
    have frozen: "map (\<lambda>x. (email x, passwordHash x, gender x, doctorid x, status x, profilePicture x))
                    ((doctors d)[i := ?u]) =
                  map (\<lambda>x. (email x, passwordHash x, gender x, doctorid x, status x, profilePicture x))
                    (doctors d)"
      using i by (intro map_list_update_same) (simp_all add: updated_profile_def)
    have others: "filter (\<lambda>x. doctorid x \<noteq> session_doctorId req) ((doctors d)[i := ?u]) =
                  filter (\<lambda>x. doctorid x \<noteq> session_doctorId req) (doctors d)"
      using i by (intro filter_list_update_other) (simp_all add: updated_profile_def)
    show ?thesis
      using frozen others passwordHash_not_selected [of "doctor_object ?u"]
      by (simp add: profile_update_found [OF t found] field_def)
  qed
qed


theorem profile_update_frame_witness:
  "doctors (snd (profile_update env0 db0 req_profile)) =
     [doctor1\<lparr>name := JStr ''Dr A'', specialization := JStr ''CARDIO'', location := JStr ''Boston''\<rparr>]
   \<and> map (\<lambda>x. (email x, status x)) (doctors (snd (profile_update env0 db0 req_profile))) =
       [(JStr ''a@x.com'', JStr ''pending'')]
   \<and> json_field (fst (profile_update env0 db0 req_profile)) ''doctor'' =
       JObj [(''name'', JStr ''Dr A''), (''email'', JStr ''a@x.com''), (''phone'', JStr ''1''),
             (''gender'', JStr ''f''), (''specialization'', JStr ''CARDIO''),
             (''location'', JStr ''Boston''), (''hospitalName'', JStr []),
             (''doctorid'', JStr ''DOC1''), (''status'', JStr ''pending''),
             (''profilePicture'', JUndefined)]
   \<and> ''passwordHash'' \<notin> fst ` set
       [(''name'', JStr ''Dr A''), (''email'', JStr ''a@x.com''), (''phone'', JStr ''1''),
             (''gender'', JStr ''f''), (''specialization'', JStr ''CARDIO''),
             (''location'', JStr ''Boston''), (''hospitalName'', JStr []),
             (''doctorid'', JStr ''DOC1''), (''status'', JStr ''pending''),
             (''profilePicture'', JUndefined)]"
proof -
  have r: "profile_update env0 db0 req_profile =
      (Json 200
         [(''success'', JBool True), (''message'', JStr ''Profile updated successfully''),
          (''doctor'',
             JObj [(''name'', JStr ''Dr A''), (''email'', JStr ''a@x.com''), (''phone'', JStr ''1''),
             (''gender'', JStr ''f''), (''specialization'', JStr ''CARDIO''),
             (''location'', JStr ''Boston''), (''hospitalName'', JStr []),
             (''doctorid'', JStr ''DOC1''), (''status'', JStr ''pending''),
             (''profilePicture'', JUndefined)])],
       db0\<lparr>doctors :=
         [doctor1\<lparr>name := JStr ''Dr A'', specialization := JStr ''CARDIO'', location := JStr ''Boston''\<rparr>]\<rparr>)"
    by (simp add: profile_update_def isDoctorLoggedIn_def session_doctorId_def Let_def
        set_field_def field_def select_minus_def doctor_object_def req_profile_def sample_defs)
  have f: "json_field (fst (profile_update env0 db0 req_profile)) ''doctor'' =
       JObj [(''name'', JStr ''Dr A''), (''email'', JStr ''a@x.com''), (''phone'', JStr ''1''),
             (''gender'', JStr ''f''), (''specialization'', JStr ''CARDIO''),
             (''location'', JStr ''Boston''), (''hospitalName'', JStr []),
             (''doctorid'', JStr ''DOC1''), (''status'', JStr ''pending''),
             (''profilePicture'', JUndefined)]"
    by (simp add: r field_def)
  from profile_update_frame [of env0 db0 req_profile] f
  have "''passwordHash'' \<notin> fst ` set
       [(''name'', JStr ''Dr A''), (''email'', JStr ''a@x.com''), (''phone'', JStr ''1''),
             (''gender'', JStr ''f''), (''specialization'', JStr ''CARDIO''),
             (''location'', JStr ''Boston''), (''hospitalName'', JStr []),
             (''doctorid'', JStr ''DOC1''), (''status'', JStr ''pending''),
             (''profilePicture'', JUndefined)]"
    by blast
  moreover have "map (\<lambda>x. (email x, status x)) (doctors (snd (profile_update env0 db0 req_profile))) =
       [(JStr ''a@x.com'', JStr ''pending'')]"
    by (simp add: r) (simp add: sample_defs)
  moreover have "doctors (snd (profile_update env0 db0 req_profile)) =
     [doctor1\<lparr>name := JStr ''Dr A'', specialization := JStr ''CARDIO'', location := JStr ''Boston''\<rparr>]"
    by (simp add: r)
  ultimately show ?thesis
    using f by blast
qed

section \<open>The admin comparison\<close>

lemma admin_login_strings:
  assumes "field (body req) ''email'' = JStr a" and "field (body req) ''password'' = JStr p"
  shows "admin_login e req =
           (if a = ''admin@gmail.com'' \<and> p = ''asdf''
            then Redirect ''/adminPage'' [(''admin'', JSON_stringify e (JStr a) (JStr p))]
            else Json 200 [(''status'', JNum 400), (''valid'', JStr ''Invalid Email!'')])"
  using assms by (simp add: admin_login_def Let_def)

text \<open>A value that has no string makes the comparison throw: the answer is 500.\<close>

lemma admin_login_thrown:
  assumes "field (body req) ''email'' = JObj kvs" and "''toString'' \<in> set (map fst kvs)"
  shows "admin_login e req = Send 500 (warning_sign @ '' Server error during admin login'')"
  using assms by (simp add: admin_login_def Let_def to_string_def)

text \<open>
  C7. The claim is that only the one pair of the stored constants is granted the admin
  cookie. The comparison is the loose \<^verbatim>\<open>==\<close>: the JSON body
  \<^verbatim>\<open>{"email": ["admin@gmail.com"], "password": "asdf"}\<close>, whose email is an array and not
  the constant, is granted the cookie and the redirect as well.
\<close>

theorem admin_login_accepts_array:
  "field (body req_admin_array) ''email'' = JArr [JStr ''admin@gmail.com'']
   \<and> field (body req_admin_array) ''email'' \<noteq> JStr ''admin@gmail.com''
   \<and> admin_login e req_admin_array =
       Redirect ''/adminPage''
         [(''admin'', JSON_stringify e (JArr [JStr ''admin@gmail.com'']) (JStr ''asdf''))]"
  by (simp add: admin_login_def Let_def to_string_def req_admin_array_def field_def)

section \<open>Listing the appointments\<close>

lemma find_sorted_mset:
  "mset (find_sorted did apps) = filter_mset (\<lambda>a. appt_doctorid a = did) (mset apps)"
  by (simp add: find_sorted_def)

lemma find_sorted_set:
  "set (find_sorted did apps) = {a \<in> set apps. appt_doctorid a = did}"
  by (simp add: find_sorted_def)

lemma find_sorted_newest_first:
  "sorted_wrt (\<lambda>a b. createdAt b \<le> createdAt a) (find_sorted did apps)"
proof -
  have "sorted (map (\<lambda>a. - createdAt a) (find_sorted did apps))"
    by (simp add: find_sorted_def)
  then show ?thesis by (simp add: sorted_map)
qed

lemma dashboard_cases:
  assumes "truthy (session_doctorId req)"
  shows "dashboard d req = Redirect ''/doctorLogin'' []
         \<or> (\<exists>doc\<in>set (doctors d). doctorid doc = session_doctorId req
              \<and> dashboard d req =
                  Render ''doctorDashboard''
                    [(''doctor'', JObj (doctor_object doc)),
                     (''appointments'',
                        JArr (map (\<lambda>a. JObj (appointment_object a))
                               (find_sorted (session_doctorId req) (appointments d))))])"
proof (cases "findOne (\<lambda>x. doctorid x = session_doctorId req) (doctors d)")
  case None
  with assms show ?thesis by (simp add: dashboard_def isDoctorLoggedIn_def)
next
  case (Some p)
  obtain i doc where p: "p = (i, doc)" by (cases p)
  from Some p have "doc \<in> set (doctors d)" "doctorid doc = session_doctorId req"
    by (auto dest: findOne_mem)
  moreover from Some p assms have "dashboard d req =
                  Render ''doctorDashboard''
                    [(''doctor'', JObj (doctor_object doc)),
                     (''appointments'',
                        JArr (map (\<lambda>a. JObj (appointment_object a))
                               (find_sorted (session_doctorId req) (appointments d))))]"
    by (simp add: dashboard_def isDoctorLoggedIn_def)
  ultimately show ?thesis by blast
qed

text \<open>
  C8. For a doctor's session the listing answers with the appointments that carry the
  session's doctor identifier, each as often as the collection holds it and no other,
  newest created first; the dashboard, when it renders, shows the same list.
\<close>

theorem appointments_listing:
  assumes "truthy (session_doctorId req)"
  shows "get_appointments d req =
           Json 200
             [(''success'', JBool True),
              (''appointments'',
                 JArr (map (\<lambda>a. JObj (appointment_object a))
                        (find_sorted (session_doctorId req) (appointments d))))]
         \<and> mset (find_sorted (session_doctorId req) (appointments d)) =
             filter_mset (\<lambda>a. appt_doctorid a = session_doctorId req) (mset (appointments d))
         \<and> set (find_sorted (session_doctorId req) (appointments d)) =
             {a \<in> set (appointments d). appt_doctorid a = session_doctorId req}
         \<and> sorted_wrt (\<lambda>a b. createdAt b \<le> createdAt a)
             (find_sorted (session_doctorId req) (appointments d))
         \<and> (dashboard d req = Redirect ''/doctorLogin'' []
            \<or> (\<exists>doc\<in>set (doctors d). doctorid doc = session_doctorId req
                 \<and> dashboard d req =
                     Render ''doctorDashboard''
                       [(''doctor'', JObj (doctor_object doc)),
                        (''appointments'',
                           JArr (map (\<lambda>a. JObj (appointment_object a))
                                  (find_sorted (session_doctorId req) (appointments d))))]))"
  using assms dashboard_cases [OF assms, of d]
  by (simp add: find_sorted_mset find_sorted_set find_sorted_newest_first
      get_appointments_def isDoctorLoggedIn_def)

lemma find_sorted_db0: "find_sorted (JStr ''DOC1'') (appointments db0) = [appt3, appt1]"
  by (simp add: find_sorted_def sample_defs)

theorem appointments_listing_witness:
  "truthy (session_doctorId req_confirm)
   \<and> appointments db0 = [appt1, appt2, appt3]
   \<and> get_appointments db0 req_confirm =
       Json 200
         [(''success'', JBool True),
          (''appointments'', JArr [JObj (appointment_object appt3), JObj (appointment_object appt1)])]
   \<and> mset [appt3, appt1] =
       filter_mset (\<lambda>a. appt_doctorid a = JStr ''DOC1'') (mset [appt1, appt2, appt3])
   \<and> sorted_wrt (\<lambda>a b. createdAt b \<le> createdAt a) [appt3, appt1]"
proof -
  have t: "truthy (session_doctorId req_confirm)"
    by (simp add: session_doctorId_def req_confirm_def session1_def)
  have sid: "session_doctorId req_confirm = JStr ''DOC1''"
    by (simp add: session_doctorId_def req_confirm_def session1_def)
  have apps: "appointments db0 = [appt1, appt2, appt3]" by (simp add: db0_def)
  show ?thesis
    using t apps appointments_listing [OF t, of db0]
    unfolding sid find_sorted_db0 by simp
qed

section \<open>Lowercase specialization and location\<close>








end
